theory Spec2Isabelle
  imports Complex_Main
begin

section \<open>Stokes parameter conversion (component/StokesParameters.py)\<close>

text \<open>
  The class \<^verbatim>\<open>StokesParameters\<close> keeps two pandas data frames (\<^verbatim>\<open>data\<close> and
  \<^verbatim>\<open>stokes_results\<close>) and computes on their columns with numpy. The embedding below
  follows the class method by method. The numbers are numpy \<^verbatim>\<open>float64\<close> values; they are
  modelled with their three special values and with exact real arithmetic on the finite
  ones. Rounding, overflow to infinity, underflow and the sign of zero are not modelled:
  on finite values the model and float64 differ (a square can overflow or underflow,
  \<open>10 ** x\<close> and the sine are rounded, \<open>arctan2\<close> tells the two zeros apart). The
  properties proved below therefore use of the arithmetic only what float64 shares with
  the model: that the code and the formula it is compared with apply the same operations
  to the same operands, how NaN and a division by zero propagate, that the square root of
  a negative number is NaN, and that \<open>arctan2\<close> returns an angle between \<open>-pi\<close> and \<open>pi\<close>.
  The values computed at the example rows (\<open>100 / 100\<close>, \<open>10 ** (-1) - 1 < 0\<close>) are those of
  float64 as well.
\<close>

subsection \<open>numpy float64 values and the ufuncs the module calls\<close>

datatype npfloat = Fin real | PInf | NInf | NaN

fun is_finite :: "npfloat \<Rightarrow> bool" where
  "is_finite (Fin _) = True"
| "is_finite _ = False"

text \<open>A negative number or minus infinity: where \<^verbatim>\<open>np.sqrt\<close> gives NaN.\<close>

fun is_negative :: "npfloat \<Rightarrow> bool" where
  "is_negative (Fin a) = (a < 0)"
| "is_negative NInf = True"
| "is_negative _ = False"

fun np_add :: "npfloat \<Rightarrow> npfloat \<Rightarrow> npfloat" where
  "np_add NaN _ = NaN"
| "np_add _ NaN = NaN"
| "np_add (Fin a) (Fin b) = Fin (a + b)"
| "np_add PInf NInf = NaN"
| "np_add NInf PInf = NaN"
| "np_add PInf _ = PInf"
| "np_add _ PInf = PInf"
| "np_add NInf _ = NInf"
| "np_add _ NInf = NInf"

fun np_neg :: "npfloat \<Rightarrow> npfloat" where
  "np_neg (Fin a) = Fin (- a)"
| "np_neg PInf = NInf"
| "np_neg NInf = PInf"
| "np_neg NaN = NaN"

definition np_sub :: "npfloat \<Rightarrow> npfloat \<Rightarrow> npfloat" where
  "np_sub a b = np_add a (np_neg b)"

fun np_mul :: "npfloat \<Rightarrow> npfloat \<Rightarrow> npfloat" where
  "np_mul NaN _ = NaN"
| "np_mul _ NaN = NaN"
| "np_mul (Fin a) (Fin b) = Fin (a * b)"
| "np_mul PInf (Fin b) = (if b = 0 then NaN else if 0 < b then PInf else NInf)"
| "np_mul NInf (Fin b) = (if b = 0 then NaN else if 0 < b then NInf else PInf)"
| "np_mul (Fin a) PInf = (if a = 0 then NaN else if 0 < a then PInf else NInf)"
| "np_mul (Fin a) NInf = (if a = 0 then NaN else if 0 < a then NInf else PInf)"
| "np_mul PInf PInf = PInf"
| "np_mul PInf NInf = NInf"
| "np_mul NInf PInf = NInf"
| "np_mul NInf NInf = PInf"

text \<open>Division by a zero gives an infinity of the sign of the numerator, \<open>0/0\<close> gives NaN
  (numpy only warns).\<close>

fun np_div :: "npfloat \<Rightarrow> npfloat \<Rightarrow> npfloat" where
  "np_div NaN _ = NaN"
| "np_div _ NaN = NaN"
| "np_div (Fin a) (Fin b) =
     (if b = 0 then (if a = 0 then NaN else if 0 < a then PInf else NInf)
      else Fin (a / b))"
| "np_div (Fin a) PInf = Fin 0"
| "np_div (Fin a) NInf = Fin 0"
| "np_div PInf (Fin b) = (if 0 \<le> b then PInf else NInf)"
| "np_div NInf (Fin b) = (if 0 \<le> b then NInf else PInf)"
| "np_div PInf PInf = NaN"
| "np_div PInf NInf = NaN"
| "np_div NInf PInf = NaN"
| "np_div NInf NInf = NaN"

text \<open>\<^verbatim>\<open>np.sqrt\<close>: a negative argument gives NaN.\<close>

fun np_sqrt :: "npfloat \<Rightarrow> npfloat" where
  "np_sqrt (Fin a) = (if a < 0 then NaN else Fin (sqrt a))"
| "np_sqrt PInf = PInf"
| "np_sqrt NInf = NaN"
| "np_sqrt NaN = NaN"

text \<open>\<^verbatim>\<open>10 ** x\<close> on a float array.\<close>

fun np_pow10 :: "npfloat \<Rightarrow> npfloat" where
  "np_pow10 (Fin a) = Fin (10 powr a)"
| "np_pow10 PInf = PInf"
| "np_pow10 NInf = Fin 0"
| "np_pow10 NaN = NaN"

text \<open>\<^verbatim>\<open>x ** 2\<close> on a float array.\<close>

definition np_square :: "npfloat \<Rightarrow> npfloat" where
  "np_square x = np_mul x x"

fun np_abs :: "npfloat \<Rightarrow> npfloat" where
  "np_abs (Fin a) = Fin \<bar>a\<bar>"
| "np_abs PInf = PInf"
| "np_abs NInf = PInf"
| "np_abs NaN = NaN"

fun np_cos :: "npfloat \<Rightarrow> npfloat" where
  "np_cos (Fin a) = Fin (cos a)"
| "np_cos _ = NaN"

fun np_sin :: "npfloat \<Rightarrow> npfloat" where
  "np_sin (Fin a) = Fin (sin a)"
| "np_sin _ = NaN"

text \<open>The tangent has no value at its poles; the module only applies it to half an arcsine,
  which stays within \<open>[-pi/4, pi/4]\<close>.\<close>

fun np_tan :: "npfloat \<Rightarrow> npfloat" where
  "np_tan (Fin a) = (if cos a = 0 then NaN else Fin (tan a))"
| "np_tan _ = NaN"

fun np_arctan :: "npfloat \<Rightarrow> npfloat" where
  "np_arctan (Fin a) = Fin (arctan a)"
| "np_arctan PInf = Fin (pi / 2)"
| "np_arctan NInf = Fin (- (pi / 2))"
| "np_arctan NaN = NaN"

fun np_arcsin :: "npfloat \<Rightarrow> npfloat" where
  "np_arcsin (Fin a) = (if \<bar>a\<bar> \<le> 1 then Fin (arcsin a) else NaN)"
| "np_arcsin _ = NaN"

text \<open>\<^verbatim>\<open>np.arctan2(y, x)\<close>, the angle of the point \<open>(x, y)\<close> in \<open>(-pi, pi]\<close>.\<close>

definition atan2_real :: "real \<Rightarrow> real \<Rightarrow> real" where
  "atan2_real y x =
     (if 0 < x then arctan (y / x)
      else if x < 0 then (if 0 \<le> y then arctan (y / x) + pi else arctan (y / x) - pi)
      else if 0 < y then pi / 2
      else if y < 0 then - (pi / 2)
      else 0)"

fun np_arctan2 :: "npfloat \<Rightarrow> npfloat \<Rightarrow> npfloat" where
  "np_arctan2 NaN _ = NaN"
| "np_arctan2 _ NaN = NaN"
| "np_arctan2 (Fin y) (Fin x) = Fin (atan2_real y x)"
| "np_arctan2 (Fin y) PInf = Fin 0"
| "np_arctan2 (Fin y) NInf = (if 0 \<le> y then Fin pi else Fin (- pi))"
| "np_arctan2 PInf (Fin x) = Fin (pi / 2)"
| "np_arctan2 NInf (Fin x) = Fin (- (pi / 2))"
| "np_arctan2 PInf PInf = Fin (pi / 4)"
| "np_arctan2 NInf PInf = Fin (- (pi / 4))"
| "np_arctan2 PInf NInf = Fin (3 * pi / 4)"
| "np_arctan2 NInf NInf = Fin (- (3 * pi / 4))"

definition np_deg2rad :: "npfloat \<Rightarrow> npfloat" where
  "np_deg2rad x = np_mul x (Fin (pi / 180))"

definition np_rad2deg :: "npfloat \<Rightarrow> npfloat" where
  "np_rad2deg x = np_mul x (Fin (180 / pi))"



text \<open>An operator between two arrays of one length works element by element. (The columns
  of one data frame have one length; on arrays of different lengths numpy raises, where
  \<open>zip\<close> stops at the shorter one.)\<close>

definition vec2 :: "(npfloat \<Rightarrow> npfloat \<Rightarrow> npfloat) \<Rightarrow> npfloat list \<Rightarrow> npfloat list \<Rightarrow> npfloat list" where
  "vec2 f xs ys = map (\<lambda>(x, y). f x y) (zip xs ys)"

subsection \<open>Data frames\<close>

text \<open>
  A column of a data frame read by \<^verbatim>\<open>pd.read_csv\<close> is numeric (int64 or float64, an empty
  cell being NaN) or of dtype object, holding text; arithmetic on an entry of a text column
  raises \<^verbatim>\<open>TypeError\<close>. A data frame is the list of its named columns in their order;
  pandas keeps the names distinct and the columns of one length.
\<close>

datatype column = NumCol "npfloat list" | ObjCol "string list"

type_synonym table = "(string \<times> column) list"

fun column_length :: "column \<Rightarrow> nat" where
  "column_length (NumCol xs) = length xs"
| "column_length (ObjCol xs) = length xs"

definition wf_table :: "nat \<Rightarrow> table \<Rightarrow> bool" where
  "wf_table n t = (distinct (map fst t) \<and> list_all (\<lambda>(name, c). column_length c = n) t)"

datatype py_error = KeyError | IndexError | TypeError

text \<open>\<^verbatim>\<open>df[name]\<close>, \<^verbatim>\<open>df.iloc[:, k]\<close> and the use of a column's values in arithmetic. A text
  column with no rows, as a file of a header line alone gives, passes through the arithmetic
  as an empty array; any text entry raises.\<close>

definition get_column :: "table \<Rightarrow> string \<Rightarrow> py_error + column" where
  "get_column t name = (case map_of t name of None \<Rightarrow> Inl KeyError | Some c \<Rightarrow> Inr c)"

definition iloc_column :: "table \<Rightarrow> nat \<Rightarrow> py_error + column" where
  "iloc_column t k = (if k < length t then Inr (snd (t ! k)) else Inl IndexError)"

definition as_numeric :: "column \<Rightarrow> py_error + npfloat list" where
  "as_numeric c =
     (case c of
        NumCol xs \<Rightarrow> Inr xs
      | ObjCol xs \<Rightarrow> (if xs = [] then Inr [] else Inl TypeError))"

text \<open>Sequencing inside a \<^verbatim>\<open>try\<close> block: the first exception ends the block.\<close>

definition try_bind :: "py_error + 'a \<Rightarrow> ('a \<Rightarrow> py_error + 'b) \<Rightarrow> py_error + 'b" where
  "try_bind r f = (case r of Inl e \<Rightarrow> Inl e | Inr x \<Rightarrow> f x)"

text \<open>The column names that are not ASCII, as their UTF-8 bytes.\<close>

definition degree_sign :: string where
  "degree_sign = [CHR 0xC2, CHR 0xB0]"

definition phi_column :: string where
  "phi_column = [CHR 0xCF, CHR 0x86] @ '' ['' @ degree_sign @ '']''"

definition azimuth_original_column :: string where
  "azimuth_original_column = ''Azimuth_original ['' @ degree_sign @ '']''"

definition azimuth_calculated_column :: string where
  "azimuth_calculated_column = ''Azimuth_calculated ['' @ degree_sign @ '']''"

definition ellipticity_angle_column :: string where
  "ellipticity_angle_column = ''Ellipticity_angle ['' @ degree_sign @ '']''"

subsection \<open>The engine state\<close>

record engine =
  data :: "table option"
  stokes_results :: "table option"

text \<open>\<^verbatim>\<open>__init__\<close>\<close>

definition init_engine :: engine where
  "init_engine = \<lparr>data = None, stokes_results = None\<rparr>"

subsection \<open>\<^verbatim>\<open>convert_to_stokes\<close>\<close>

definition intensity_arr :: "npfloat list \<Rightarrow> npfloat list" where
  "intensity_arr intensity_pct = map (\<lambda>x. np_div x (Fin 100)) intensity_pct"

definition dop_arr :: "npfloat list \<Rightarrow> npfloat list" where
  "dop_arr dop_pct = map (\<lambda>x. np_div x (Fin 100)) dop_pct"

definition azimuth_rad_arr :: "npfloat list \<Rightarrow> npfloat list" where
  "azimuth_rad_arr azimuth_deg = map np_deg2rad azimuth_deg"

definition per_linear_arr :: "npfloat list \<Rightarrow> npfloat list" where
  "per_linear_arr per_db = map (\<lambda>p. np_pow10 (np_div p (Fin 10))) per_db"

definition ellipticity_angle_arr :: "npfloat list \<Rightarrow> npfloat list" where
  "ellipticity_angle_arr per_linear =
     map (\<lambda>l. np_mul (Fin (1/2)) (np_arctan (np_div (Fin 2) (np_sqrt (np_sub l (Fin 1))))))
       per_linear"

definition S1_arr :: "npfloat list \<Rightarrow> npfloat list \<Rightarrow> npfloat list \<Rightarrow> npfloat list \<Rightarrow> npfloat list" where
  "S1_arr intensity dop azimuth_rad ellipticity_angle =
     vec2 np_mul
       (vec2 np_mul (vec2 np_mul intensity dop)
          (map (\<lambda>a. np_cos (np_mul (Fin 2) a)) azimuth_rad))
       (map (\<lambda>e. np_cos (np_mul (Fin 2) e)) ellipticity_angle)"

definition S2_arr :: "npfloat list \<Rightarrow> npfloat list \<Rightarrow> npfloat list \<Rightarrow> npfloat list \<Rightarrow> npfloat list" where
  "S2_arr intensity dop azimuth_rad ellipticity_angle =
     vec2 np_mul
       (vec2 np_mul (vec2 np_mul intensity dop)
          (map (\<lambda>a. np_sin (np_mul (Fin 2) a)) azimuth_rad))
       (map (\<lambda>e. np_cos (np_mul (Fin 2) e)) ellipticity_angle)"

definition S3_arr :: "npfloat list \<Rightarrow> npfloat list \<Rightarrow> npfloat list \<Rightarrow> npfloat list" where
  "S3_arr intensity dop ellipticity_angle =
     vec2 np_mul (vec2 np_mul intensity dop)
       (map (\<lambda>e. np_sin (np_mul (Fin 2) e)) ellipticity_angle)"

text \<open>\<^verbatim>\<open>np.sqrt(S1**2 + S2**2 + S3**2) / S0\<close>, which both transforms compute.\<close>

definition dop_calculated_arr :: "npfloat list \<Rightarrow> npfloat list \<Rightarrow> npfloat list \<Rightarrow> npfloat list \<Rightarrow> npfloat list" where
  "dop_calculated_arr S0 S1 S2 S3 =
     vec2 np_div
       (map np_sqrt
          (vec2 np_add (vec2 np_add (map np_square S1) (map np_square S2)) (map np_square S3)))
       S0"

text \<open>The azimuth column: by name, and by position when the lookup by name raises.\<close>

definition azimuth_deg_column :: "table \<Rightarrow> py_error + column" where
  "azimuth_deg_column d =
     (case get_column d phi_column of
        Inr c \<Rightarrow> Inr c
      | Inl _ \<Rightarrow> iloc_column d 4)"

text \<open>The body of the \<^verbatim>\<open>try\<close> block of \<^verbatim>\<open>convert_to_stokes\<close>.\<close>

definition compute_stokes :: "table \<Rightarrow> py_error + table" where
  "compute_stokes d =
     try_bind (get_column d ''Intensity [%]'') (\<lambda>intensity_col.
     try_bind (as_numeric intensity_col) (\<lambda>intensity_pct.
     try_bind (get_column d ''DOP [%]'') (\<lambda>dop_col.
     try_bind (as_numeric dop_col) (\<lambda>dop_pct.
     try_bind (azimuth_deg_column d) (\<lambda>azimuth_col.
     try_bind (get_column d ''PER [dB]'') (\<lambda>per_col.
     try_bind (as_numeric azimuth_col) (\<lambda>azimuth_deg.
     try_bind (as_numeric per_col) (\<lambda>per_db.
     try_bind (get_column d ''No'') (\<lambda>no_col.
       let intensity = intensity_arr intensity_pct;
           dop = dop_arr dop_pct;
           azimuth_rad = azimuth_rad_arr azimuth_deg;
           per_linear = per_linear_arr per_db;
           ellipticity_angle = ellipticity_angle_arr per_linear;
           S0 = intensity;
           S1 = S1_arr intensity dop azimuth_rad ellipticity_angle;
           S2 = S2_arr intensity dop azimuth_rad ellipticity_angle;
           S3 = S3_arr intensity dop ellipticity_angle
       in Inr [(''No'', no_col),
               (''S0'', NumCol S0),
               (''S1'', NumCol S1),
               (''S2'', NumCol S2),
               (''S3'', NumCol S3),
               (''DOP_calculated'', NumCol (dop_calculated_arr S0 S1 S2 S3)),
               (azimuth_original_column, NumCol azimuth_deg),
               (''PER_original [dB]'', NumCol per_db),
               (''Intensity_original [%]'', intensity_col)])))))))))"

text \<open>The method: no data gives \<^verbatim>\<open>None\<close>; an exception gives \<^verbatim>\<open>None\<close> and leaves the
  state as it was; otherwise the result is stored and returned.\<close>

definition convert_to_stokes :: "engine \<Rightarrow> table option \<times> engine" where
  "convert_to_stokes st =
     (case data st of
        None \<Rightarrow> (None, st)
      | Some d \<Rightarrow>
          (case compute_stokes d of
             Inl e \<Rightarrow> (None, st)
           | Inr results \<Rightarrow> (Some results, st\<lparr>stokes_results := Some results\<rparr>)))"

subsection \<open>\<^verbatim>\<open>get_polarization_properties\<close>\<close>

definition azimuth_calc_arr :: "npfloat list \<Rightarrow> npfloat list \<Rightarrow> npfloat list" where
  "azimuth_calc_arr S1 S2 =
     map (\<lambda>a. np_mul (Fin (1/2)) (np_rad2deg a)) (vec2 np_arctan2 S2 S1)"

definition ellipticity_calc_arr :: "npfloat list \<Rightarrow> npfloat list \<Rightarrow> npfloat list \<Rightarrow> npfloat list" where
  "ellipticity_calc_arr S0 S3 dop_calc =
     map (\<lambda>q. np_mul (Fin (1/2)) (np_rad2deg (np_arcsin q)))
       (vec2 np_div S3
          (map (\<lambda>m. np_add m (Fin (1 / 10 ^ 10))) (vec2 np_mul S0 dop_calc)))"

definition ellipticity_ratio_arr :: "npfloat list \<Rightarrow> npfloat list" where
  "ellipticity_ratio_arr ellipticity_calc = map (\<lambda>e. np_tan (np_deg2rad e)) ellipticity_calc"

definition linear_dop_arr :: "npfloat list \<Rightarrow> npfloat list \<Rightarrow> npfloat list \<Rightarrow> npfloat list" where
  "linear_dop_arr S0 S1 S2 =
     map (\<lambda>q. np_mul q (Fin 100))
       (vec2 np_div (map np_sqrt (vec2 np_add (map np_square S1) (map np_square S2))) S0)"

definition circular_dop_arr :: "npfloat list \<Rightarrow> npfloat list \<Rightarrow> npfloat list" where
  "circular_dop_arr S0 S3 =
     map (\<lambda>q. np_mul q (Fin 100)) (vec2 np_div (map np_abs S3) S0)"

definition compute_properties :: "table \<Rightarrow> py_error + table" where
  "compute_properties r =
     try_bind (get_column r ''S0'') (\<lambda>S0_col.
     try_bind (get_column r ''S1'') (\<lambda>S1_col.
     try_bind (get_column r ''S2'') (\<lambda>S2_col.
     try_bind (get_column r ''S3'') (\<lambda>S3_col.
     try_bind (as_numeric S1_col) (\<lambda>S1.
     try_bind (as_numeric S2_col) (\<lambda>S2.
     try_bind (as_numeric S3_col) (\<lambda>S3.
     try_bind (as_numeric S0_col) (\<lambda>S0.
     try_bind (get_column r ''No'') (\<lambda>no_col.
       let dop_calc = dop_calculated_arr S0 S1 S2 S3;
           azimuth_calc = azimuth_calc_arr S1 S2;
           ellipticity_calc = ellipticity_calc_arr S0 S3 dop_calc;
           ellipticity_ratio = ellipticity_ratio_arr ellipticity_calc
       in Inr [(''No'', no_col),
               (''DOP [%]'', NumCol (map (\<lambda>q. np_mul q (Fin 100)) dop_calc)),
               (azimuth_calculated_column, NumCol azimuth_calc),
               (ellipticity_angle_column, NumCol ellipticity_calc),
               (''Ellipticity_ratio'', NumCol ellipticity_ratio),
               (''Linear_DOP [%]'', NumCol (linear_dop_arr S0 S1 S2)),
               (''Circular_DOP [%]'', NumCol (circular_dop_arr S0 S3))])))))))))"

definition get_polarization_properties :: "engine \<Rightarrow> table option" where
  "get_polarization_properties st =
     (case stokes_results st of
        None \<Rightarrow> None
      | Some r \<Rightarrow> (case compute_properties r of Inl e \<Rightarrow> None | Inr properties \<Rightarrow> Some properties))"

subsection \<open>\<^verbatim>\<open>save_results\<close>\<close>

text \<open>
  The two pandas calls of \<^verbatim>\<open>save_results\<close> are parameters: the left join on a key
  column (\<^verbatim>\<open>None\<close> when it raises) and whether \<^verbatim>\<open>to_csv\<close> to a path completes. The
  files written are a map from paths to the frame written there; a file left behind by a
  write that raised is not described.
\<close>

record pandas_io =
  merge_left :: "table \<Rightarrow> table \<Rightarrow> string \<Rightarrow> table option"
  to_csv_ok :: "string \<Rightarrow> table \<Rightarrow> bool"

type_synonym files = "string \<rightharpoonup> table"

definition save_results :: "pandas_io \<Rightarrow> string \<Rightarrow> bool \<Rightarrow> engine \<Rightarrow> files \<Rightarrow> bool \<times> files" where
  "save_results io output_file include_properties st fs =
     (case stokes_results st of
        None \<Rightarrow> (False, fs)
      | Some results \<Rightarrow>
          (let merged =
                 (if include_properties then
                    (case get_polarization_properties st of
                       Some properties \<Rightarrow> merge_left io results properties ''No''
                     | None \<Rightarrow> Some results)
                  else Some results)
           in case merged of
                None \<Rightarrow> (False, fs)
              | Some save_data \<Rightarrow>
                  if to_csv_ok io output_file save_data
                  then (True, fs(output_file \<mapsto> save_data))
                  else (False, fs)))"

subsection \<open>\<^verbatim>\<open>load_data\<close>\<close>

text \<open>
  What the file gives is a parameter of the model: the outcome of
  \<^verbatim>\<open>pd.read_csv(file_path, sep='\t', skiprows=2, encoding=e)\<close> for each encoding name, the
  bytes read by \<^verbatim>\<open>open(file_path, 'rb')\<close> (\<^verbatim>\<open>None\<close> when that raises) and
  \<^verbatim>\<open>chardet.detect\<close> (\<^verbatim>\<open>None\<close> when the import fails), which returns an encoding name or
  \<^verbatim>\<open>None\<close>, and a confidence.
\<close>

datatype read_result = Parsed table | UnicodeDecodeError | OtherException

record file_env =
  read_csv :: "string \<Rightarrow> read_result"
  raw_data :: "string option"
  chardet_detect :: "(string \<Rightarrow> string option \<times> real) option"

text \<open>The messages \<^verbatim>\<open>load_data\<close> prints, in the order it prints them.\<close>

datatype message =
    TryEncoding string
  | Loaded string
  | CannotDecode string
  | ReadFailed string
  | AutoDetect
  | Detected string
  | DetectedReadFailed string
  | NoChardet
  | DetectFailed
  | CannotRead

definition encodings :: "string list" where
  "encodings = [''utf-8'', ''gbk'', ''utf-16le'', ''gb2312'', ''latin-1'', ''cp1252'', ''utf-8-sig'']"

text \<open>The \<^verbatim>\<open>for\<close> loop over the candidates: the first one that parses ends it.\<close>

fun try_encodings :: "(string \<Rightarrow> read_result) \<Rightarrow> string list \<Rightarrow> message list \<times> table option" where
  "try_encodings rd [] = ([], None)"
| "try_encodings rd (e # es) =
     (case rd e of
        Parsed t \<Rightarrow> ([TryEncoding e, Loaded e], Some t)
      | UnicodeDecodeError \<Rightarrow>
          (case try_encodings rd es of (msgs, r) \<Rightarrow> (TryEncoding e # CannotDecode e # msgs, r))
      | OtherException \<Rightarrow>
          (case try_encodings rd es of (msgs, r) \<Rightarrow> (TryEncoding e # ReadFailed e # msgs, r)))"

text \<open>The part after the loop: detection of the encoding from the bytes.\<close>

definition detect_and_load :: "file_env \<Rightarrow> message list \<times> table option" where
  "detect_and_load env =
     (case raw_data env of
        None \<Rightarrow> ([AutoDetect, DetectFailed, CannotRead], None)
      | Some raw \<Rightarrow>
          (case chardet_detect env of
             None \<Rightarrow> ([AutoDetect, NoChardet, CannotRead], None)
           | Some detect \<Rightarrow>
               (case detect raw of
                  (Some detected_encoding, confidence) \<Rightarrow>
                    if detected_encoding \<noteq> [] \<and> confidence > 7 / 10 then
                      (case read_csv env detected_encoding of
                         Parsed t \<Rightarrow>
                           ([AutoDetect, Detected detected_encoding, Loaded detected_encoding], Some t)
                       | _ \<Rightarrow>
                           ([AutoDetect, Detected detected_encoding,
                             DetectedReadFailed detected_encoding, CannotRead], None))
                    else ([AutoDetect, CannotRead], None)
                | (None, confidence) \<Rightarrow> ([AutoDetect, CannotRead], None))))"

definition load_data :: "file_env \<Rightarrow> engine \<Rightarrow> bool \<times> engine \<times> message list" where
  "load_data env st =
     (case try_encodings (read_csv env) encodings of
        (msgs, Some t) \<Rightarrow> (True, st\<lparr>data := Some t\<rparr>, msgs)
      | (msgs, None) \<Rightarrow>
          (case detect_and_load env of
             (msgs', Some t) \<Rightarrow> (True, st\<lparr>data := Some t\<rparr>, msgs @ msgs')
           | (msgs', None) \<Rightarrow> (False, st, msgs @ msgs')))"

subsection \<open>The caller: \<^verbatim>\<open>DataProcessor.run\<close> (gui/main\_window.py)\<close>

text \<open>Load, then convert; the signals it emits are left out.\<close>

definition run :: "file_env \<Rightarrow> engine \<Rightarrow> bool \<times> engine" where
  "run env st =
     (case load_data env st of
        (False, st', msgs) \<Rightarrow> (False, st')
      | (True, st', msgs) \<Rightarrow>
          (case convert_to_stokes st' of
             (None, st'') \<Rightarrow> (False, st'')
           | (Some results, st'') \<Rightarrow> (True, st'')))"

subsection \<open>The formulas and conditions as the specification writes them\<close>

text \<open>Section 4.2 of the specification, for one row of the raw table.\<close>

definition spec_I :: "npfloat \<Rightarrow> npfloat" where
  "spec_I intensity_pct = np_div intensity_pct (Fin 100)"

definition spec_DOP :: "npfloat \<Rightarrow> npfloat" where
  "spec_DOP dop_pct = np_div dop_pct (Fin 100)"

definition spec_PERlin :: "npfloat \<Rightarrow> npfloat" where
  "spec_PERlin per_db = np_pow10 (np_div per_db (Fin 10))"

definition spec_chi :: "npfloat \<Rightarrow> npfloat" where
  "spec_chi per_db =
     np_mul (Fin (1/2)) (np_arctan (np_div (Fin 2) (np_sqrt (np_sub (spec_PERlin per_db) (Fin 1)))))"

definition spec_S1 :: "npfloat \<Rightarrow> npfloat \<Rightarrow> npfloat \<Rightarrow> npfloat \<Rightarrow> npfloat" where
  "spec_S1 intensity_pct dop_pct azimuth_deg per_db =
     np_mul (np_mul (np_mul (spec_I intensity_pct) (spec_DOP dop_pct))
               (np_cos (np_mul (Fin 2) (np_deg2rad azimuth_deg))))
       (np_cos (np_mul (Fin 2) (spec_chi per_db)))"

definition spec_S2 :: "npfloat \<Rightarrow> npfloat \<Rightarrow> npfloat \<Rightarrow> npfloat \<Rightarrow> npfloat" where
  "spec_S2 intensity_pct dop_pct azimuth_deg per_db =
     np_mul (np_mul (np_mul (spec_I intensity_pct) (spec_DOP dop_pct))
               (np_sin (np_mul (Fin 2) (np_deg2rad azimuth_deg))))
       (np_cos (np_mul (Fin 2) (spec_chi per_db)))"

definition spec_S3 :: "npfloat \<Rightarrow> npfloat \<Rightarrow> npfloat \<Rightarrow> npfloat" where
  "spec_S3 intensity_pct dop_pct per_db =
     np_mul (np_mul (spec_I intensity_pct) (spec_DOP dop_pct))
       (np_sin (np_mul (Fin 2) (spec_chi per_db)))"

definition spec_DOP_calc :: "npfloat \<Rightarrow> npfloat \<Rightarrow> npfloat \<Rightarrow> npfloat \<Rightarrow> npfloat" where
  "spec_DOP_calc S0 S1 S2 S3 =
     np_div (np_sqrt (np_add (np_add (np_square S1) (np_square S2)) (np_square S3))) S0"


text \<open>Section 4.3 of the specification, for one Stokes record.\<close>

definition spec_Azimuth_calc :: "npfloat \<Rightarrow> npfloat \<Rightarrow> npfloat" where
  "spec_Azimuth_calc S1 S2 = np_mul (Fin (1/2)) (np_rad2deg (np_arctan2 S2 S1))"

definition spec_Ellipticity_deg :: "npfloat \<Rightarrow> npfloat \<Rightarrow> npfloat \<Rightarrow> npfloat" where
  "spec_Ellipticity_deg S0 S3 DOP_calc =
     np_mul (Fin (1/2))
       (np_rad2deg (np_arcsin (np_div S3 (np_add (np_mul S0 DOP_calc) (Fin (1 / 10 ^ 10))))))"

definition spec_Ellipticity_ratio :: "npfloat \<Rightarrow> npfloat" where
  "spec_Ellipticity_ratio Ellipticity_deg = np_tan (np_deg2rad Ellipticity_deg)"

definition spec_Linear_DOP :: "npfloat \<Rightarrow> npfloat \<Rightarrow> npfloat \<Rightarrow> npfloat" where
  "spec_Linear_DOP S0 S1 S2 =
     np_mul (np_div (np_sqrt (np_add (np_square S1) (np_square S2))) S0) (Fin 100)"

definition spec_Circular_DOP :: "npfloat \<Rightarrow> npfloat \<Rightarrow> npfloat" where
  "spec_Circular_DOP S0 S3 = np_mul (np_div (np_abs S3) S0) (Fin 100)"

text \<open>Section 4.1 of the specification: the required columns of a parsed table.\<close>

definition has_column :: "table \<Rightarrow> string \<Rightarrow> bool" where
  "has_column t name = (name \<in> set (map fst t))"

definition required_columns_present :: "table \<Rightarrow> bool" where
  "required_columns_present t =
     (has_column t ''No'' \<and> has_column t ''Intensity [%]'' \<and> has_column t ''DOP [%]'' \<and>
      has_column t ''PER [dB]'' \<and> (has_column t phi_column \<or> 5 \<le> length t))"

text \<open>Section 5 of the specification: the Stokes table held, if there is one, is the one
  computed from the raw table held.\<close>

definition tables_consistent :: "engine \<Rightarrow> bool" where
  "tables_consistent st =
     (case stokes_results st of
        None \<Rightarrow> True
      | Some r \<Rightarrow> (case data st of None \<Rightarrow> False | Some d \<Rightarrow> compute_stokes d = Inr r))"



subsection \<open>Reading the outcome of a load\<close>

text \<open>Whether a read parsed, the encodings a load has tried, and the message of an accepted
  detection.\<close>

fun is_parsed :: "read_result \<Rightarrow> bool" where
  "is_parsed (Parsed t) = True"
| "is_parsed _ = False"

fun attempted :: "message list \<Rightarrow> string list" where
  "attempted [] = []"
| "attempted (TryEncoding e # ms) = e # attempted ms"
| "attempted (m # ms) = attempted ms"

fun is_detected :: "message \<Rightarrow> bool" where
  "is_detected (Detected e) = True"
| "is_detected _ = False"

text \<open>The condition under which the detected encoding is retried.\<close>

definition detection_accepts :: "file_env \<Rightarrow> string \<Rightarrow> bool" where
  "detection_accepts env enc =
     (case raw_data env of
        None \<Rightarrow> False
      | Some raw \<Rightarrow>
          (case chardet_detect env of
             None \<Rightarrow> False
           | Some detect \<Rightarrow>
               (case detect raw of
                  (Some detected_encoding, confidence) \<Rightarrow>
                    detected_encoding = enc \<and> enc \<noteq> [] \<and> confidence > 7 / 10
                | (None, confidence) \<Rightarrow> False)))"

subsection \<open>Example inputs\<close>

text \<open>The row of the specification's concrete scenario.\<close>

definition scenario_table :: table where
  "scenario_table =
     [(''No'', NumCol [Fin 1]),
      (''Intensity [%]'', NumCol [Fin 100]),
      (''DOP [%]'', NumCol [Fin 100]),
      (''PER [dB]'', NumCol [Fin 30]),
      (phi_column, NumCol [Fin 45])]"

text \<open>A second raw table, of two rows.\<close>

definition second_table :: table where
  "second_table =
     [(''No'', NumCol [Fin 1, Fin 2]),
      (''Intensity [%]'', NumCol [Fin 50, Fin 60]),
      (''DOP [%]'', NumCol [Fin 80, Fin 90]),
      (''PER [dB]'', NumCol [Fin 20, Fin 25]),
      (phi_column, NumCol [Fin 10, Fin 20])]"




text \<open>Three rows: an ordinary one, one with a PER below 0 dB and one with no intensity.\<close>

definition degenerate_table :: table where
  "degenerate_table =
     [(''No'', NumCol [Fin 1, Fin 2, Fin 3]),
      (''Intensity [%]'', NumCol [Fin 100, Fin 100, Fin 0]),
      (''DOP [%]'', NumCol [Fin 100, Fin 100, Fin 100]),
      (''PER [dB]'', NumCol [Fin 30, Fin (- 10), Fin 30]),
      (phi_column, NumCol [Fin 45, Fin 45, Fin 45])]"

text \<open>A table without the PER column.\<close>

definition no_per_table :: table where
  "no_per_table =
     [(''No'', NumCol [Fin 1]),
      (''Intensity [%]'', NumCol [Fin 100]),
      (''DOP [%]'', NumCol [Fin 100]),
      (phi_column, NumCol [Fin 45])]"

text \<open>A table of five columns, none of them named after the azimuth.\<close>

definition positional_table :: table where
  "positional_table =
     [(''No'', NumCol [Fin 1]),
      (''Intensity [%]'', NumCol [Fin 100]),
      (''DOP [%]'', NumCol [Fin 100]),
      (''PER [dB]'', NumCol [Fin 30]),
      (''Azimuth'', NumCol [Fin 45])]"

text \<open>A Stokes table of one record.\<close>

definition example_stokes :: table where
  "example_stokes =
     [(''No'', NumCol [Fin 1]),
      (''S0'', NumCol [Fin 1]),
      (''S1'', NumCol [Fin 0]),
      (''S2'', NumCol [Fin (3/5)]),
      (''S3'', NumCol [Fin (4/5)]),
      (''DOP_calculated'', NumCol [Fin 1]),
      (azimuth_original_column, NumCol [Fin 45]),
      (''PER_original [dB]'', NumCol [Fin 30]),
      (''Intensity_original [%]'', NumCol [Fin 100])]"

text \<open>A Stokes table without the columns S1, S2 and S3, and pandas calls that succeed.\<close>

definition truncated_stokes :: table where
  "truncated_stokes = [(''No'', NumCol [Fin 1]), (''S0'', NumCol [Fin 1])]"

definition working_io :: pandas_io where
  "working_io = \<lparr>merge_left = (\<lambda>left right key. None), to_csv_ok = (\<lambda>path frame. True)\<rparr>"

text \<open>A file that parses as utf-8 into a given table.\<close>

definition utf8_file :: "table \<Rightarrow> file_env" where
  "utf8_file t =
     \<lparr>read_csv = (\<lambda>e. if e = ''utf-8'' then Parsed t else OtherException),
      raw_data = Some [],
      chardet_detect = None\<rparr>"

text \<open>A file in GBK: it does not decode as utf-8 and parses as gbk.\<close>

definition gbk_file :: file_env where
  "gbk_file =
     \<lparr>read_csv = (\<lambda>e. if e = ''utf-8'' then UnicodeDecodeError
                      else if e = ''gbk'' then Parsed scenario_table
                      else OtherException),
      raw_data = Some [CHR 0xB1, CHR 0xE0],
      chardet_detect = Some (\<lambda>raw. (Some ''GB2312'', 99 / 100))\<rparr>"

text \<open>A file that no candidate parses and whose encoding chardet detects.\<close>

definition undecodable_file :: file_env where
  "undecodable_file =
     \<lparr>read_csv = (\<lambda>e. if e = ''shift_jis'' then Parsed scenario_table
                      else if e = ''latin-1'' then OtherException
                      else UnicodeDecodeError),
      raw_data = Some [CHR 0x83, CHR 0x65],
      chardet_detect = Some (\<lambda>raw. (Some ''shift_jis'', 9 / 10))\<rparr>"

text \<open>A file that no candidate encoding parses, on a machine without chardet.\<close>

definition unreadable_file :: file_env where
  "unreadable_file =
     \<lparr>read_csv = (\<lambda>e. OtherException), raw_data = Some [], chardet_detect = None\<rparr>"

section \<open>Properties\<close>

subsection \<open>Arrays and frames\<close>

lemma length_vec2: "length (vec2 f xs ys) = min (length xs) (length ys)"
  by (simp add: vec2_def)

lemma nth_vec2: "i < length xs \<Longrightarrow> i < length ys \<Longrightarrow> vec2 f xs ys ! i = f (xs ! i) (ys ! i)"
  by (simp add: vec2_def)

lemma wf_table_member: "wf_table n t \<Longrightarrow> (name, c) \<in> set t \<Longrightarrow> column_length c = n"
  by (auto simp: wf_table_def list_all_iff)

lemma wf_get_column:
  assumes "wf_table n t" and "get_column t name = Inr c"
  shows "column_length c = n"
proof -
  from assms(2) have "map_of t name = Some c"
    by (simp add: get_column_def split: option.splits)
  then have "(name, c) \<in> set t" by (rule map_of_SomeD)
  with assms(1) show ?thesis by (rule wf_table_member)
qed

lemma wf_iloc_column:
  assumes "wf_table n t" and "iloc_column t k = Inr c"
  shows "column_length c = n"
proof -
  from assms(2) have k: "k < length t" and c: "c = snd (t ! k)"
    by (auto simp: iloc_column_def split: if_splits)
  then have "(fst (t ! k), c) \<in> set t" by (metis nth_mem prod.collapse)
  with assms(1) show ?thesis by (rule wf_table_member)
qed

lemma wf_azimuth_deg_column:
  assumes "wf_table n t" and "azimuth_deg_column t = Inr c"
  shows "column_length c = n"
  using assms
  by (auto simp: azimuth_deg_column_def split: sum.splits dest: wf_get_column wf_iloc_column)

lemma compute_stokes_numeric:
  assumes "get_column d ''Intensity [%]'' = Inr (NumCol intensity_pct)"
    and "get_column d ''DOP [%]'' = Inr (NumCol dop_pct)"
    and "azimuth_deg_column d = Inr (NumCol azimuth_deg)"
    and "get_column d ''PER [dB]'' = Inr (NumCol per_db)"
    and "get_column d ''No'' = Inr no_col"
  shows "compute_stokes d =
    Inr [(''No'', no_col),
         (''S0'', NumCol (intensity_arr intensity_pct)),
         (''S1'', NumCol (S1_arr (intensity_arr intensity_pct) (dop_arr dop_pct)
                   (azimuth_rad_arr azimuth_deg) (ellipticity_angle_arr (per_linear_arr per_db)))),
         (''S2'', NumCol (S2_arr (intensity_arr intensity_pct) (dop_arr dop_pct)
                   (azimuth_rad_arr azimuth_deg) (ellipticity_angle_arr (per_linear_arr per_db)))),
         (''S3'', NumCol (S3_arr (intensity_arr intensity_pct) (dop_arr dop_pct)
                   (ellipticity_angle_arr (per_linear_arr per_db)))),
         (''DOP_calculated'', NumCol (dop_calculated_arr (intensity_arr intensity_pct)
              (S1_arr (intensity_arr intensity_pct) (dop_arr dop_pct)
                   (azimuth_rad_arr azimuth_deg) (ellipticity_angle_arr (per_linear_arr per_db)))
              (S2_arr (intensity_arr intensity_pct) (dop_arr dop_pct)
                   (azimuth_rad_arr azimuth_deg) (ellipticity_angle_arr (per_linear_arr per_db)))
              (S3_arr (intensity_arr intensity_pct) (dop_arr dop_pct)
                   (ellipticity_angle_arr (per_linear_arr per_db))))),
         (azimuth_original_column, NumCol azimuth_deg),
         (''PER_original [dB]'', NumCol per_db),
         (''Intensity_original [%]'', NumCol intensity_pct)]"
  using assms by (simp add: compute_stokes_def try_bind_def as_numeric_def Let_def)

lemma S1_arr_nth:
  assumes "i < n" "length iv = n" "length dv = n" "length az = n" "length per = n"
  shows "S1_arr (intensity_arr iv) (dop_arr dv) (azimuth_rad_arr az)
           (ellipticity_angle_arr (per_linear_arr per)) ! i
         = spec_S1 (iv ! i) (dv ! i) (az ! i) (per ! i)"
  using assms
  by (simp add: S1_arr_def nth_vec2 length_vec2 intensity_arr_def dop_arr_def azimuth_rad_arr_def
      ellipticity_angle_arr_def per_linear_arr_def spec_S1_def spec_I_def spec_DOP_def
      spec_chi_def spec_PERlin_def)

lemma S2_arr_nth:
  assumes "i < n" "length iv = n" "length dv = n" "length az = n" "length per = n"
  shows "S2_arr (intensity_arr iv) (dop_arr dv) (azimuth_rad_arr az)
           (ellipticity_angle_arr (per_linear_arr per)) ! i
         = spec_S2 (iv ! i) (dv ! i) (az ! i) (per ! i)"
  using assms
  by (simp add: S2_arr_def nth_vec2 length_vec2 intensity_arr_def dop_arr_def azimuth_rad_arr_def
      ellipticity_angle_arr_def per_linear_arr_def spec_S2_def spec_I_def spec_DOP_def
      spec_chi_def spec_PERlin_def)

lemma S3_arr_nth:
  assumes "i < n" "length iv = n" "length dv = n" "length per = n"
  shows "S3_arr (intensity_arr iv) (dop_arr dv)
           (ellipticity_angle_arr (per_linear_arr per)) ! i
         = spec_S3 (iv ! i) (dv ! i) (per ! i)"
  using assms
  by (simp add: S3_arr_def nth_vec2 length_vec2 intensity_arr_def dop_arr_def
      ellipticity_angle_arr_def per_linear_arr_def spec_S3_def spec_I_def spec_DOP_def
      spec_chi_def spec_PERlin_def)

lemma dop_calculated_arr_nth:
  assumes "i < n" "length S0 = n" "length S1 = n" "length S2 = n" "length S3 = n"
  shows "dop_calculated_arr S0 S1 S2 S3 ! i = spec_DOP_calc (S0 ! i) (S1 ! i) (S2 ! i) (S3 ! i)"
  using assms
  by (simp add: dop_calculated_arr_def nth_vec2 length_vec2 spec_DOP_calc_def)

lemma length_stokes_arrs:
  "length (intensity_arr iv) = length iv"
  "length (dop_arr dv) = length dv"
  "length (S1_arr a b c e) = min (min (min (length a) (length b)) (length c)) (length e)"
  "length (S2_arr a b c e) = min (min (min (length a) (length b)) (length c)) (length e)"
  "length (S3_arr a b e) = min (min (length a) (length b)) (length e)"
  "length (dop_calculated_arr s0 s1 s2 s3) =
     min (min (min (length s1) (length s2)) (length s3)) (length s0)"
  "length (azimuth_rad_arr az) = length az"
  "length (per_linear_arr per) = length per"
  "length (ellipticity_angle_arr l) = length l"
  by (simp_all add: intensity_arr_def dop_arr_def S1_arr_def S2_arr_def S3_arr_def
      dop_calculated_arr_def azimuth_rad_arr_def per_linear_arr_def ellipticity_angle_arr_def
      length_vec2)

subsection \<open>The forward transform\<close>

lemma convert_to_stokes_Some:
  assumes "data st = Some d" and "compute_stokes d = Inr results"
  shows "convert_to_stokes st = (Some results, st\<lparr>stokes_results := Some results\<rparr>)"
  using assms by (simp add: convert_to_stokes_def)

text \<open>
  C1. When the raw table has its required columns and they are numeric, \<^verbatim>\<open>convert_to_stokes\<close>
  returns a frame of the nine result columns, each with one entry per input row, in row
  order. In row \<open>i\<close>, \<open>S0\<close> is the intensity of that row divided by 100 and depends on
  nothing else; \<open>S1\<close>, \<open>S2\<close>, \<open>S3\<close> are the formulas of section 4.2 of the specification
  applied to the intensity, DOP, azimuth and PER of that row, and \<open>DOP_calculated\<close> is
  \<open>sqrt(S1^2 + S2^2 + S3^2) / S0\<close> of that row.
\<close>

theorem convert_to_stokes_rows:
  assumes wf: "wf_table n d"
    and d: "data st = Some d"
    and iv: "get_column d ''Intensity [%]'' = Inr (NumCol intensity_pct)"
    and dv: "get_column d ''DOP [%]'' = Inr (NumCol dop_pct)"
    and az: "azimuth_deg_column d = Inr (NumCol azimuth_deg)"
    and per: "get_column d ''PER [dB]'' = Inr (NumCol per_db)"
    and no: "get_column d ''No'' = Inr no_col"
  shows "\<exists>S0 S1 S2 S3 DOP_calculated.
     fst (convert_to_stokes st) =
       Some [(''No'', no_col), (''S0'', NumCol S0), (''S1'', NumCol S1), (''S2'', NumCol S2),
             (''S3'', NumCol S3), (''DOP_calculated'', NumCol DOP_calculated),
             (azimuth_original_column, NumCol azimuth_deg),
             (''PER_original [dB]'', NumCol per_db),
             (''Intensity_original [%]'', NumCol intensity_pct)] \<and>
     column_length no_col = n \<and> length S0 = n \<and> length S1 = n \<and> length S2 = n \<and>
     length S3 = n \<and> length DOP_calculated = n \<and>
     (\<forall>i<n. S0 ! i = np_div (intensity_pct ! i) (Fin 100) \<and>
            S1 ! i = spec_S1 (intensity_pct ! i) (dop_pct ! i) (azimuth_deg ! i) (per_db ! i) \<and>
            S2 ! i = spec_S2 (intensity_pct ! i) (dop_pct ! i) (azimuth_deg ! i) (per_db ! i) \<and>
            S3 ! i = spec_S3 (intensity_pct ! i) (dop_pct ! i) (per_db ! i) \<and>
            DOP_calculated ! i = spec_DOP_calc (S0 ! i) (S1 ! i) (S2 ! i) (S3 ! i))"
proof -
  have li: "length intensity_pct = n" using wf_get_column [OF wf iv] by simp
  have ld: "length dop_pct = n" using wf_get_column [OF wf dv] by simp
  have la: "length azimuth_deg = n" using wf_azimuth_deg_column [OF wf az] by simp
  have lp: "length per_db = n" using wf_get_column [OF wf per] by simp
  have ln: "column_length no_col = n" using wf_get_column [OF wf no] .
  let ?S0 = "intensity_arr intensity_pct"
  let ?S1 = "S1_arr ?S0 (dop_arr dop_pct) (azimuth_rad_arr azimuth_deg)
               (ellipticity_angle_arr (per_linear_arr per_db))"
  let ?S2 = "S2_arr ?S0 (dop_arr dop_pct) (azimuth_rad_arr azimuth_deg)
               (ellipticity_angle_arr (per_linear_arr per_db))"
  let ?S3 = "S3_arr ?S0 (dop_arr dop_pct) (ellipticity_angle_arr (per_linear_arr per_db))"
  let ?DC = "dop_calculated_arr ?S0 ?S1 ?S2 ?S3"
  have l0: "length ?S0 = n" and l1: "length ?S1 = n" and l2: "length ?S2 = n"
    and l3: "length ?S3 = n"
    using li ld la lp by (simp_all add: length_stokes_arrs)
  have lc: "length ?DC = n" using l0 l1 l2 l3 by (simp add: length_stokes_arrs)
  have res: "fst (convert_to_stokes st) =
       Some [(''No'', no_col), (''S0'', NumCol ?S0), (''S1'', NumCol ?S1), (''S2'', NumCol ?S2),
             (''S3'', NumCol ?S3), (''DOP_calculated'', NumCol ?DC),
             (azimuth_original_column, NumCol azimuth_deg),
             (''PER_original [dB]'', NumCol per_db),
             (''Intensity_original [%]'', NumCol intensity_pct)]"
    using convert_to_stokes_Some [OF d compute_stokes_numeric [OF iv dv az per no]] by simp
  have rows: "\<forall>i<n. ?S0 ! i = np_div (intensity_pct ! i) (Fin 100) \<and>
            ?S1 ! i = spec_S1 (intensity_pct ! i) (dop_pct ! i) (azimuth_deg ! i) (per_db ! i) \<and>
            ?S2 ! i = spec_S2 (intensity_pct ! i) (dop_pct ! i) (azimuth_deg ! i) (per_db ! i) \<and>
            ?S3 ! i = spec_S3 (intensity_pct ! i) (dop_pct ! i) (per_db ! i) \<and>
            ?DC ! i = spec_DOP_calc (?S0 ! i) (?S1 ! i) (?S2 ! i) (?S3 ! i)"
  proof (intro allI impI conjI)
    fix i assume i: "i < n"
    show "?S0 ! i = np_div (intensity_pct ! i) (Fin 100)"
      using i li by (simp add: intensity_arr_def)
    show "?S1 ! i = spec_S1 (intensity_pct ! i) (dop_pct ! i) (azimuth_deg ! i) (per_db ! i)"
      by (rule S1_arr_nth [OF i li ld la lp])
    show "?S2 ! i = spec_S2 (intensity_pct ! i) (dop_pct ! i) (azimuth_deg ! i) (per_db ! i)"
      by (rule S2_arr_nth [OF i li ld la lp])
    show "?S3 ! i = spec_S3 (intensity_pct ! i) (dop_pct ! i) (per_db ! i)"
      by (rule S3_arr_nth [OF i li ld lp])
    show "?DC ! i = spec_DOP_calc (?S0 ! i) (?S1 ! i) (?S2 ! i) (?S3 ! i)"
      by (rule dop_calculated_arr_nth [OF i l0 l1 l2 l3])
  qed
  from res ln l0 l1 l2 l3 lc rows show ?thesis by blast
qed

lemma scenario_columns:
  "wf_table 1 scenario_table"
  "get_column scenario_table ''Intensity [%]'' = Inr (NumCol [Fin 100])"
  "get_column scenario_table ''DOP [%]'' = Inr (NumCol [Fin 100])"
  "azimuth_deg_column scenario_table = Inr (NumCol [Fin 45])"
  "get_column scenario_table ''PER [dB]'' = Inr (NumCol [Fin 30])"
  "get_column scenario_table ''No'' = Inr (NumCol [Fin 1])"
  by (simp_all add: wf_table_def scenario_table_def get_column_def azimuth_deg_column_def
      phi_column_def degree_sign_def)

theorem convert_to_stokes_rows_witness:
  "wf_table 1 scenario_table \<and>
   (\<exists>S0 S1 S2 S3 DOP_calculated.
     fst (convert_to_stokes \<lparr>data = Some scenario_table, stokes_results = None\<rparr>) =
       Some [(''No'', NumCol [Fin 1]), (''S0'', NumCol S0), (''S1'', NumCol S1), (''S2'', NumCol S2),
             (''S3'', NumCol S3), (''DOP_calculated'', NumCol DOP_calculated),
             (azimuth_original_column, NumCol [Fin 45]),
             (''PER_original [dB]'', NumCol [Fin 30]),
             (''Intensity_original [%]'', NumCol [Fin 100])] \<and>
     column_length (NumCol [Fin 1]) = 1 \<and> length S0 = 1 \<and> length S1 = 1 \<and> length S2 = 1 \<and>
     length S3 = 1 \<and> length DOP_calculated = 1 \<and>
     (\<forall>i<1. S0 ! i = np_div ([Fin 100] ! i) (Fin 100) \<and>
            S1 ! i = spec_S1 ([Fin 100] ! i) ([Fin 100] ! i) ([Fin 45] ! i) ([Fin 30] ! i) \<and>
            S2 ! i = spec_S2 ([Fin 100] ! i) ([Fin 100] ! i) ([Fin 45] ! i) ([Fin 30] ! i) \<and>
            S3 ! i = spec_S3 ([Fin 100] ! i) ([Fin 100] ! i) ([Fin 30] ! i) \<and>
            DOP_calculated ! i = spec_DOP_calc (S0 ! i) (S1 ! i) (S2 ! i) (S3 ! i)))"
proof -
  have st: "data \<lparr>data = Some scenario_table, stokes_results = None\<rparr> = Some scenario_table"
    by simp
  show ?thesis
    by (intro conjI)
      (rule scenario_columns(1),
       rule convert_to_stokes_rows [OF scenario_columns(1) st scenario_columns(2-6)])
qed

subsection \<open>The inverse transform\<close>

lemma compute_properties_numeric:
  assumes "get_column r ''S0'' = Inr (NumCol S0)"
    and "get_column r ''S1'' = Inr (NumCol S1)"
    and "get_column r ''S2'' = Inr (NumCol S2)"
    and "get_column r ''S3'' = Inr (NumCol S3)"
    and "get_column r ''No'' = Inr no_col"
  shows "compute_properties r =
    Inr [(''No'', no_col),
         (''DOP [%]'', NumCol (map (\<lambda>q. np_mul q (Fin 100)) (dop_calculated_arr S0 S1 S2 S3))),
         (azimuth_calculated_column, NumCol (azimuth_calc_arr S1 S2)),
         (ellipticity_angle_column,
            NumCol (ellipticity_calc_arr S0 S3 (dop_calculated_arr S0 S1 S2 S3))),
         (''Ellipticity_ratio'',
            NumCol (ellipticity_ratio_arr
                      (ellipticity_calc_arr S0 S3 (dop_calculated_arr S0 S1 S2 S3)))),
         (''Linear_DOP [%]'', NumCol (linear_dop_arr S0 S1 S2)),
         (''Circular_DOP [%]'', NumCol (circular_dop_arr S0 S3))]"
  using assms by (simp add: compute_properties_def try_bind_def as_numeric_def Let_def)

lemma length_property_arrs:
  "length (azimuth_calc_arr s1 s2) = min (length s2) (length s1)"
  "length (ellipticity_calc_arr s0 s3 dc) = min (length s3) (min (length s0) (length dc))"
  "length (ellipticity_ratio_arr e) = length e"
  "length (linear_dop_arr s0 s1 s2) = min (min (length s1) (length s2)) (length s0)"
  "length (circular_dop_arr s0 s3) = min (length s3) (length s0)"
  by (simp_all add: azimuth_calc_arr_def ellipticity_calc_arr_def ellipticity_ratio_arr_def
      linear_dop_arr_def circular_dop_arr_def length_vec2)

lemma azimuth_calc_arr_nth:
  assumes "i < n" "length S1 = n" "length S2 = n"
  shows "azimuth_calc_arr S1 S2 ! i = spec_Azimuth_calc (S1 ! i) (S2 ! i)"
  using assms by (simp add: azimuth_calc_arr_def nth_vec2 length_vec2 spec_Azimuth_calc_def)

lemma ellipticity_calc_arr_nth:
  assumes "i < n" "length S0 = n" "length S3 = n" "length dc = n"
  shows "ellipticity_calc_arr S0 S3 dc ! i = spec_Ellipticity_deg (S0 ! i) (S3 ! i) (dc ! i)"
  using assms
  by (simp add: ellipticity_calc_arr_def nth_vec2 length_vec2 spec_Ellipticity_deg_def)

lemma ellipticity_ratio_arr_nth:
  assumes "i < length e"
  shows "ellipticity_ratio_arr e ! i = spec_Ellipticity_ratio (e ! i)"
  using assms by (simp add: ellipticity_ratio_arr_def spec_Ellipticity_ratio_def)

lemma linear_dop_arr_nth:
  assumes "i < n" "length S0 = n" "length S1 = n" "length S2 = n"
  shows "linear_dop_arr S0 S1 S2 ! i = spec_Linear_DOP (S0 ! i) (S1 ! i) (S2 ! i)"
  using assms by (simp add: linear_dop_arr_def nth_vec2 length_vec2 spec_Linear_DOP_def)

lemma circular_dop_arr_nth:
  assumes "i < n" "length S0 = n" "length S3 = n"
  shows "circular_dop_arr S0 S3 ! i = spec_Circular_DOP (S0 ! i) (S3 ! i)"
  using assms by (simp add: circular_dop_arr_def nth_vec2 length_vec2 spec_Circular_DOP_def)

lemma get_polarization_properties_Some:
  assumes "stokes_results st = Some r" and "compute_properties r = Inr properties"
  shows "get_polarization_properties st = Some properties"
  using assms by (simp add: get_polarization_properties_def)

text \<open>
  C6. When the Stokes table has its columns \<open>No\<close>, \<open>S0\<close>, \<open>S1\<close>, \<open>S2\<close>, \<open>S3\<close> and the four
  Stokes columns are numeric, \<^verbatim>\<open>get_polarization_properties\<close> returns a frame of the seven
  property columns, each with one entry per Stokes record, in the same order. In row \<open>i\<close>:
  \<open>DOP [%]\<close> is \<open>100 * sqrt(S1^2 + S2^2 + S3^2) / S0\<close>, the azimuth is
  \<open>0.5 * rad2deg(atan2(S2, S1))\<close>, the ellipticity angle is
  \<open>0.5 * rad2deg(asin(S3 / (S0 * DOP_calc + 1e-10)))\<close>, the ellipticity ratio is the tangent
  of that angle, the linear DOP is \<open>sqrt(S1^2 + S2^2) / S0 * 100\<close> and the circular DOP is
  \<open>|S3| / S0 * 100\<close>.
\<close>

theorem get_polarization_properties_rows:
  assumes wf: "wf_table n r"
    and r: "stokes_results st = Some r"
    and c0: "get_column r ''S0'' = Inr (NumCol S0)"
    and c1: "get_column r ''S1'' = Inr (NumCol S1)"
    and c2: "get_column r ''S2'' = Inr (NumCol S2)"
    and c3: "get_column r ''S3'' = Inr (NumCol S3)"
    and no: "get_column r ''No'' = Inr no_col"
  shows "\<exists>DOP_pct Azimuth Ellipticity Ratio Linear Circular.
     get_polarization_properties st =
       Some [(''No'', no_col), (''DOP [%]'', NumCol DOP_pct),
             (azimuth_calculated_column, NumCol Azimuth),
             (ellipticity_angle_column, NumCol Ellipticity),
             (''Ellipticity_ratio'', NumCol Ratio),
             (''Linear_DOP [%]'', NumCol Linear),
             (''Circular_DOP [%]'', NumCol Circular)] \<and>
     column_length no_col = n \<and> length DOP_pct = n \<and> length Azimuth = n \<and>
     length Ellipticity = n \<and> length Ratio = n \<and> length Linear = n \<and> length Circular = n \<and>
     (\<forall>i<n. DOP_pct ! i = np_mul (spec_DOP_calc (S0 ! i) (S1 ! i) (S2 ! i) (S3 ! i)) (Fin 100) \<and>
            Azimuth ! i = spec_Azimuth_calc (S1 ! i) (S2 ! i) \<and>
            Ellipticity ! i =
              spec_Ellipticity_deg (S0 ! i) (S3 ! i)
                (spec_DOP_calc (S0 ! i) (S1 ! i) (S2 ! i) (S3 ! i)) \<and>
            Ratio ! i = spec_Ellipticity_ratio (Ellipticity ! i) \<and>
            Linear ! i = spec_Linear_DOP (S0 ! i) (S1 ! i) (S2 ! i) \<and>
            Circular ! i = spec_Circular_DOP (S0 ! i) (S3 ! i))"
proof -
  have l0: "length S0 = n" using wf_get_column [OF wf c0] by simp
  have l1: "length S1 = n" using wf_get_column [OF wf c1] by simp
  have l2: "length S2 = n" using wf_get_column [OF wf c2] by simp
  have l3: "length S3 = n" using wf_get_column [OF wf c3] by simp
  have ln: "column_length no_col = n" using wf_get_column [OF wf no] .
  let ?dc = "dop_calculated_arr S0 S1 S2 S3"
  let ?D = "map (\<lambda>q. np_mul q (Fin 100)) ?dc"
  let ?A = "azimuth_calc_arr S1 S2"
  let ?E = "ellipticity_calc_arr S0 S3 ?dc"
  let ?R = "ellipticity_ratio_arr ?E"
  let ?L = "linear_dop_arr S0 S1 S2"
  let ?C = "circular_dop_arr S0 S3"
  have ldc: "length ?dc = n" using l0 l1 l2 l3 by (simp add: length_stokes_arrs)
  have lD: "length ?D = n" using ldc by simp
  have lA: "length ?A = n" using l1 l2 by (simp add: length_property_arrs)
  have lE: "length ?E = n" using l0 l3 ldc by (simp add: length_property_arrs)
  have lR: "length ?R = n" using lE by (simp add: length_property_arrs)
  have lL: "length ?L = n" using l0 l1 l2 by (simp add: length_property_arrs)
  have lC: "length ?C = n" using l0 l3 by (simp add: length_property_arrs)
  have res: "get_polarization_properties st =
       Some [(''No'', no_col), (''DOP [%]'', NumCol ?D),
             (azimuth_calculated_column, NumCol ?A),
             (ellipticity_angle_column, NumCol ?E),
             (''Ellipticity_ratio'', NumCol ?R),
             (''Linear_DOP [%]'', NumCol ?L),
             (''Circular_DOP [%]'', NumCol ?C)]"
    by (rule get_polarization_properties_Some [OF r compute_properties_numeric [OF c0 c1 c2 c3 no]])
  have rows: "\<forall>i<n. ?D ! i = np_mul (spec_DOP_calc (S0 ! i) (S1 ! i) (S2 ! i) (S3 ! i)) (Fin 100) \<and>
            ?A ! i = spec_Azimuth_calc (S1 ! i) (S2 ! i) \<and>
            ?E ! i =
              spec_Ellipticity_deg (S0 ! i) (S3 ! i)
                (spec_DOP_calc (S0 ! i) (S1 ! i) (S2 ! i) (S3 ! i)) \<and>
            ?R ! i = spec_Ellipticity_ratio (?E ! i) \<and>
            ?L ! i = spec_Linear_DOP (S0 ! i) (S1 ! i) (S2 ! i) \<and>
            ?C ! i = spec_Circular_DOP (S0 ! i) (S3 ! i)"
  proof (intro allI impI conjI)
    fix i assume i: "i < n"
    have dc: "?dc ! i = spec_DOP_calc (S0 ! i) (S1 ! i) (S2 ! i) (S3 ! i)"
      by (rule dop_calculated_arr_nth [OF i l0 l1 l2 l3])
    show "?D ! i = np_mul (spec_DOP_calc (S0 ! i) (S1 ! i) (S2 ! i) (S3 ! i)) (Fin 100)"
      using i ldc dc by simp
    show "?A ! i = spec_Azimuth_calc (S1 ! i) (S2 ! i)"
      by (rule azimuth_calc_arr_nth [OF i l1 l2])
    show "?E ! i = spec_Ellipticity_deg (S0 ! i) (S3 ! i)
                (spec_DOP_calc (S0 ! i) (S1 ! i) (S2 ! i) (S3 ! i))"
      using ellipticity_calc_arr_nth [OF i l0 l3 ldc] dc by simp
    show "?R ! i = spec_Ellipticity_ratio (?E ! i)"
      using i lE by (simp add: ellipticity_ratio_arr_nth)
    show "?L ! i = spec_Linear_DOP (S0 ! i) (S1 ! i) (S2 ! i)"
      by (rule linear_dop_arr_nth [OF i l0 l1 l2])
    show "?C ! i = spec_Circular_DOP (S0 ! i) (S3 ! i)"
      by (rule circular_dop_arr_nth [OF i l0 l3])
  qed
  from res ln lD lA lE lR lL lC rows show ?thesis by blast
qed

lemma example_stokes_columns:
  "wf_table 1 example_stokes"
  "get_column example_stokes ''S0'' = Inr (NumCol [Fin 1])"
  "get_column example_stokes ''S1'' = Inr (NumCol [Fin 0])"
  "get_column example_stokes ''S2'' = Inr (NumCol [Fin (3/5)])"
  "get_column example_stokes ''S3'' = Inr (NumCol [Fin (4/5)])"
  "get_column example_stokes ''No'' = Inr (NumCol [Fin 1])"
  by (simp_all add: wf_table_def example_stokes_def get_column_def azimuth_original_column_def
      degree_sign_def)

theorem get_polarization_properties_rows_witness:
  "wf_table 1 example_stokes \<and>
   (\<exists>DOP_pct Azimuth Ellipticity Ratio Linear Circular.
     get_polarization_properties \<lparr>data = None, stokes_results = Some example_stokes\<rparr> =
       Some [(''No'', NumCol [Fin 1]), (''DOP [%]'', NumCol DOP_pct),
             (azimuth_calculated_column, NumCol Azimuth),
             (ellipticity_angle_column, NumCol Ellipticity),
             (''Ellipticity_ratio'', NumCol Ratio),
             (''Linear_DOP [%]'', NumCol Linear),
             (''Circular_DOP [%]'', NumCol Circular)] \<and>
     column_length (NumCol [Fin 1]) = 1 \<and> length DOP_pct = 1 \<and> length Azimuth = 1 \<and>
     length Ellipticity = 1 \<and> length Ratio = 1 \<and> length Linear = 1 \<and> length Circular = 1 \<and>
     (\<forall>i<1. DOP_pct ! i =
              np_mul (spec_DOP_calc ([Fin 1] ! i) ([Fin 0] ! i) ([Fin (3/5)] ! i) ([Fin (4/5)] ! i))
                (Fin 100) \<and>
            Azimuth ! i = spec_Azimuth_calc ([Fin 0] ! i) ([Fin (3/5)] ! i) \<and>
            Ellipticity ! i =
              spec_Ellipticity_deg ([Fin 1] ! i) ([Fin (4/5)] ! i)
                (spec_DOP_calc ([Fin 1] ! i) ([Fin 0] ! i) ([Fin (3/5)] ! i) ([Fin (4/5)] ! i)) \<and>
            Ratio ! i = spec_Ellipticity_ratio (Ellipticity ! i) \<and>
            Linear ! i = spec_Linear_DOP ([Fin 1] ! i) ([Fin 0] ! i) ([Fin (3/5)] ! i) \<and>
            Circular ! i = spec_Circular_DOP ([Fin 1] ! i) ([Fin (4/5)] ! i)))"
proof -
  have st: "stokes_results \<lparr>data = None, stokes_results = Some example_stokes\<rparr>
              = Some example_stokes"
    by simp
  show ?thesis
    by (intro conjI)
      (rule example_stokes_columns(1),
       rule get_polarization_properties_rows
         [OF example_stokes_columns(1) st example_stokes_columns(2-6)])
qed

subsection \<open>Loading\<close>

lemma attempted_append: "attempted (xs @ ys) = attempted xs @ attempted ys"
  by (induction xs rule: attempted.induct) simp_all

lemma try_encodings_first:
  assumes "\<forall>c\<in>set pre. \<not> is_parsed (rd c)" and "rd e = Parsed t"
  shows "\<exists>msgs. try_encodings rd (pre @ e # post) = (msgs, Some t) \<and>
           attempted msgs = pre @ [e] \<and> AutoDetect \<notin> set msgs \<and>
           (\<forall>m\<in>set msgs. \<not> is_detected m)"
  using assms
proof (induction pre)
  case Nil
  then show ?case by simp
next
  case (Cons c pre)
  then obtain msgs where m: "try_encodings rd (pre @ e # post) = (msgs, Some t)"
    "attempted msgs = pre @ [e]" "AutoDetect \<notin> set msgs" "\<forall>m\<in>set msgs. \<not> is_detected m"
    by auto
  from Cons.prems have "\<not> is_parsed (rd c)" by simp
  then show ?case using m by (cases "rd c") auto
qed

lemma try_encodings_none:
  assumes "\<forall>c\<in>set es. \<not> is_parsed (rd c)"
  shows "\<exists>msgs. try_encodings rd es = (msgs, None) \<and> attempted msgs = es \<and>
           AutoDetect \<notin> set msgs \<and> (\<forall>m\<in>set msgs. \<not> is_detected m)"
  using assms
proof (induction es)
  case Nil
  then show ?case by simp
next
  case (Cons c es)
  then obtain msgs where m: "try_encodings rd es = (msgs, None)"
    "attempted msgs = es" "AutoDetect \<notin> set msgs" "\<forall>m\<in>set msgs. \<not> is_detected m"
    by auto
  from Cons.prems have "\<not> is_parsed (rd c)" by simp
  then show ?case using m by (cases "rd c") auto
qed

lemma detect_and_load_msgs:
  "\<exists>msgs r. detect_and_load env = (AutoDetect # msgs, r) \<and> attempted msgs = [] \<and>
     (\<forall>enc. Detected enc \<in> set msgs \<longleftrightarrow> detection_accepts env enc) \<and>
     (\<forall>t. r = Some t \<longleftrightarrow> (\<exists>enc. detection_accepts env enc \<and> read_csv env enc = Parsed t))"
proof (cases "raw_data env")
  case None
  then show ?thesis by (simp add: detect_and_load_def detection_accepts_def)
next
  case raw: (Some raw)
  show ?thesis
  proof (cases "chardet_detect env")
    case None
    with raw show ?thesis by (simp add: detect_and_load_def detection_accepts_def)
  next
    case det: (Some detect)
    obtain name conf where dr: "detect raw = (name, conf)" by (cases "detect raw")
    show ?thesis
    proof (cases name)
      case None
      with raw det dr show ?thesis by (simp add: detect_and_load_def detection_accepts_def)
    next
      case (Some enc)
      show ?thesis
      proof (cases "enc \<noteq> [] \<and> conf > 7 / 10")
        case False
        with raw det dr Some show ?thesis
          by (auto simp: detect_and_load_def detection_accepts_def)
      next
        case True
        with raw det dr Some show ?thesis
          by (cases "read_csv env enc") (auto simp: detect_and_load_def detection_accepts_def)
      qed
    qed
  qed
qed

lemma load_data_first:
  assumes "try_encodings (read_csv env) encodings = (msgs, Some t)"
  shows "load_data env st = (True, st\<lparr>data := Some t\<rparr>, msgs)"
  using assms by (simp add: load_data_def)

text \<open>
  C8. \<^verbatim>\<open>load_data\<close> tries the candidates in the order utf-8, gbk, utf-16le, gb2312, latin-1,
  cp1252, utf-8-sig. When a candidate parses and all those before it fail, the load succeeds
  with that candidate's table, exactly the candidates up to it have been tried, and the
  detection has not been started. When every candidate fails, all seven have been tried,
  the detection is started, and an encoding is retried exactly when the raw bytes could be
  read, chardet is present and it names a non-empty encoding with a confidence above 0.7;
  the load then succeeds exactly when the retry parses. In particular a file that fails
  to decode as utf-8 and parses as gbk is loaded by the second attempt.
\<close>

theorem load_data_encoding_order:
  "encodings = [''utf-8'', ''gbk'', ''utf-16le'', ''gb2312'', ''latin-1'', ''cp1252'', ''utf-8-sig''] \<and>
   (\<forall>pre e post t.
      encodings = pre @ e # post \<longrightarrow> (\<forall>c\<in>set pre. \<not> is_parsed (read_csv env c)) \<longrightarrow>
      read_csv env e = Parsed t \<longrightarrow>
      (\<exists>msgs. load_data env st = (True, st\<lparr>data := Some t\<rparr>, msgs) \<and>
         attempted msgs = pre @ [e] \<and> AutoDetect \<notin> set msgs \<and>
         (\<forall>m\<in>set msgs. \<not> is_detected m))) \<and>
   ((\<forall>c\<in>set encodings. \<not> is_parsed (read_csv env c)) \<longrightarrow>
      (\<exists>ok st' msgs. load_data env st = (ok, st', msgs) \<and>
         attempted msgs = encodings \<and> AutoDetect \<in> set msgs \<and>
         (\<forall>enc. Detected enc \<in> set msgs \<longleftrightarrow> detection_accepts env enc) \<and>
         (ok \<longleftrightarrow> (\<exists>enc t. detection_accepts env enc \<and> read_csv env enc = Parsed t)) \<and>
         (\<forall>enc t. detection_accepts env enc \<and> read_csv env enc = Parsed t
            \<longrightarrow> st' = st\<lparr>data := Some t\<rparr>) \<and>
         (\<not> ok \<longrightarrow> st' = st))) \<and>
   (\<forall>t. read_csv env ''utf-8'' = UnicodeDecodeError \<longrightarrow> read_csv env ''gbk'' = Parsed t \<longrightarrow>
      load_data env st =
        (True, st\<lparr>data := Some t\<rparr>,
         [TryEncoding ''utf-8'', CannotDecode ''utf-8'', TryEncoding ''gbk'', Loaded ''gbk'']))"
proof (intro conjI allI impI)
  show "encodings = [''utf-8'', ''gbk'', ''utf-16le'', ''gb2312'', ''latin-1'', ''cp1252'', ''utf-8-sig'']"
    by (simp add: encodings_def)
next
  fix pre e post t
  assume split: "encodings = pre @ e # post"
    and fail: "\<forall>c\<in>set pre. \<not> is_parsed (read_csv env c)"
    and ok: "read_csv env e = Parsed t"
  from try_encodings_first [OF fail ok, of post] split
  obtain msgs where m: "try_encodings (read_csv env) encodings = (msgs, Some t)"
    "attempted msgs = pre @ [e]" "AutoDetect \<notin> set msgs" "\<forall>m\<in>set msgs. \<not> is_detected m"
    by auto
  from load_data_first [OF m(1)] m(2-4)
  show "\<exists>msgs. load_data env st = (True, st\<lparr>data := Some t\<rparr>, msgs) \<and>
         attempted msgs = pre @ [e] \<and> AutoDetect \<notin> set msgs \<and>
         (\<forall>m\<in>set msgs. \<not> is_detected m)"
    by blast
next
  assume fail: "\<forall>c\<in>set encodings. \<not> is_parsed (read_csv env c)"
  from try_encodings_none [OF fail]
  obtain msgs where m: "try_encodings (read_csv env) encodings = (msgs, None)"
    "attempted msgs = encodings" "AutoDetect \<notin> set msgs" "\<forall>m\<in>set msgs. \<not> is_detected m"
    by auto
  from detect_and_load_msgs [of env]
  obtain msgs' r where d: "detect_and_load env = (AutoDetect # msgs', r)" "attempted msgs' = []"
    "\<forall>enc. Detected enc \<in> set msgs' \<longleftrightarrow> detection_accepts env enc"
    "\<forall>t. r = Some t \<longleftrightarrow> (\<exists>enc. detection_accepts env enc \<and> read_csv env enc = Parsed t)"
    by auto
  let ?all = "msgs @ AutoDetect # msgs'"
  have att: "attempted ?all = encodings"
    using m(2) d(2) by (simp add: attempted_append)
  have det: "\<forall>enc. Detected enc \<in> set ?all \<longleftrightarrow> detection_accepts env enc"
    using m(4) d(3) by auto
  have uniq: "\<And>e1 e2. detection_accepts env e1 \<Longrightarrow> detection_accepts env e2 \<Longrightarrow> e1 = e2"
    by (auto simp: detection_accepts_def split: option.splits prod.splits)
  show "\<exists>ok st' msgs. load_data env st = (ok, st', msgs) \<and>
         attempted msgs = encodings \<and> AutoDetect \<in> set msgs \<and>
         (\<forall>enc. Detected enc \<in> set msgs \<longleftrightarrow> detection_accepts env enc) \<and>
         (ok \<longleftrightarrow> (\<exists>enc t. detection_accepts env enc \<and> read_csv env enc = Parsed t)) \<and>
         (\<forall>enc t. detection_accepts env enc \<and> read_csv env enc = Parsed t
            \<longrightarrow> st' = st\<lparr>data := Some t\<rparr>) \<and>
         (\<not> ok \<longrightarrow> st' = st)"
  proof (cases r)
    case None
    then have ld: "load_data env st = (False, st, ?all)"
      using m(1) d(1) by (simp add: load_data_def)
    from None d(4) have no: "\<not> (\<exists>enc t. detection_accepts env enc \<and> read_csv env enc = Parsed t)"
      by auto
    have in_all: "AutoDetect \<in> set ?all" by simp
    show ?thesis
    proof (intro exI conjI)
      show "load_data env st = (False, st, ?all)" by (rule ld)
      show "attempted ?all = encodings" by (rule att)
      show "AutoDetect \<in> set ?all" by (rule in_all)
      show "\<forall>enc. Detected enc \<in> set ?all \<longleftrightarrow> detection_accepts env enc" by (rule det)
      show "False \<longleftrightarrow> (\<exists>enc t. detection_accepts env enc \<and> read_csv env enc = Parsed t)"
        using no by simp
      show "\<forall>enc t. detection_accepts env enc \<and> read_csv env enc = Parsed t
        \<longrightarrow> st = st\<lparr>data := Some t\<rparr>"
        using no by blast
      show "\<not> False \<longrightarrow> st = st" by simp
    qed
  next
    case (Some t)
    then have ld: "load_data env st = (True, st\<lparr>data := Some t\<rparr>, ?all)"
      using m(1) d(1) by (simp add: load_data_def)
    from Some d(4) obtain enc where acc: "detection_accepts env enc" "read_csv env enc = Parsed t"
      by auto
    have same: "\<forall>enc' t'. detection_accepts env enc' \<and> read_csv env enc' = Parsed t'
        \<longrightarrow> t' = t"
    proof (intro allI impI)
      fix enc' t'
      assume h: "detection_accepts env enc' \<and> read_csv env enc' = Parsed t'"
      then have "enc' = enc" using uniq acc(1) by blast
      with h acc(2) show "t' = t" by simp
    qed
    have in_all: "AutoDetect \<in> set ?all" by simp
    have yes: "True \<longleftrightarrow> (\<exists>enc t. detection_accepts env enc \<and> read_csv env enc = Parsed t)"
      using acc by blast
    show ?thesis
    proof (intro exI conjI)
      show "load_data env st = (True, st\<lparr>data := Some t\<rparr>, ?all)" by (rule ld)
      show "attempted ?all = encodings" by (rule att)
      show "AutoDetect \<in> set ?all" by (rule in_all)
      show "\<forall>enc. Detected enc \<in> set ?all \<longleftrightarrow> detection_accepts env enc" by (rule det)
      show "True \<longleftrightarrow> (\<exists>enc t. detection_accepts env enc \<and> read_csv env enc = Parsed t)"
        by (rule yes)
      show "\<forall>enc' t'. detection_accepts env enc' \<and> read_csv env enc' = Parsed t'
        \<longrightarrow> st\<lparr>data := Some t\<rparr> = st\<lparr>data := Some t'\<rparr>"
        using same by simp
      show "\<not> True \<longrightarrow> st\<lparr>data := Some t\<rparr> = st" by simp
    qed
  qed
next
  fix t
  assume u: "read_csv env ''utf-8'' = UnicodeDecodeError" and g: "read_csv env ''gbk'' = Parsed t"
  have "try_encodings (read_csv env) (''utf-8'' # ''gbk'' # es) =
      ([TryEncoding ''utf-8'', CannotDecode ''utf-8'', TryEncoding ''gbk'', Loaded ''gbk''], Some t)"
    for es
    by (simp only: try_encodings.simps u g read_result.case prod.case)
  then have "try_encodings (read_csv env) encodings =
      ([TryEncoding ''utf-8'', CannotDecode ''utf-8'', TryEncoding ''gbk'', Loaded ''gbk''], Some t)"
    unfolding encodings_def .
  then show "load_data env st =
        (True, st\<lparr>data := Some t\<rparr>,
         [TryEncoding ''utf-8'', CannotDecode ''utf-8'', TryEncoding ''gbk'', Loaded ''gbk''])"
    by (rule load_data_first)
qed

lemma gbk_file_reads:
  "read_csv gbk_file ''utf-8'' = UnicodeDecodeError"
  "read_csv gbk_file ''gbk'' = Parsed scenario_table"
  by (simp_all add: gbk_file_def)

lemma undecodable_file_reads:
  "\<forall>c\<in>set encodings. \<not> is_parsed (read_csv undecodable_file c)"
  "detection_accepts undecodable_file ''shift_jis''"
  "read_csv undecodable_file ''shift_jis'' = Parsed scenario_table"
  by (simp_all add: undecodable_file_def encodings_def detection_accepts_def)

theorem load_data_encoding_order_witness:
  "read_csv gbk_file ''utf-8'' = UnicodeDecodeError \<and>
   read_csv gbk_file ''gbk'' = Parsed scenario_table \<and>
   load_data gbk_file init_engine =
     (True, init_engine\<lparr>data := Some scenario_table\<rparr>,
      [TryEncoding ''utf-8'', CannotDecode ''utf-8'', TryEncoding ''gbk'', Loaded ''gbk'']) \<and>
   list_all (\<lambda>c. \<not> is_parsed (read_csv undecodable_file c)) encodings \<and>
   (\<exists>msgs. load_data undecodable_file init_engine =
       (True, init_engine\<lparr>data := Some scenario_table\<rparr>, msgs) \<and>
      attempted msgs = encodings \<and> AutoDetect \<in> set msgs \<and> Detected ''shift_jis'' \<in> set msgs)"
proof -
  note a = load_data_encoding_order [of gbk_file init_engine]
  note b = load_data_encoding_order [of undecodable_file init_engine]
  from a gbk_file_reads have 1: "load_data gbk_file init_engine =
     (True, init_engine\<lparr>data := Some scenario_table\<rparr>,
      [TryEncoding ''utf-8'', CannotDecode ''utf-8'', TryEncoding ''gbk'', Loaded ''gbk''])"
    by blast
  from b undecodable_file_reads(1)
  obtain ok st' msgs where l: "load_data undecodable_file init_engine = (ok, st', msgs)"
    "attempted msgs = encodings" "AutoDetect \<in> set msgs"
    "\<forall>enc. Detected enc \<in> set msgs \<longleftrightarrow> detection_accepts undecodable_file enc"
    "ok \<longleftrightarrow> (\<exists>enc t. detection_accepts undecodable_file enc \<and> read_csv undecodable_file enc = Parsed t)"
    "\<forall>enc t. detection_accepts undecodable_file enc \<and> read_csv undecodable_file enc = Parsed t
            \<longrightarrow> st' = init_engine\<lparr>data := Some t\<rparr>"
    by blast
  from l(5) undecodable_file_reads(2,3) have ok by blast
  moreover from l(6) undecodable_file_reads(2,3) have "st' = init_engine\<lparr>data := Some scenario_table\<rparr>"
    by blast
  moreover from l(4) undecodable_file_reads(2) have "Detected ''shift_jis'' \<in> set msgs" by blast
  ultimately have 2: "\<exists>msgs. load_data undecodable_file init_engine =
       (True, init_engine\<lparr>data := Some scenario_table\<rparr>, msgs) \<and>
      attempted msgs = encodings \<and> AutoDetect \<in> set msgs \<and> Detected ''shift_jis'' \<in> set msgs"
    using l(1-3) by auto
  have 3: "list_all (\<lambda>c. \<not> is_parsed (read_csv undecodable_file c)) encodings"
    using undecodable_file_reads(1) by (simp add: list_all_iff)
  from 1 2 3 gbk_file_reads show ?thesis by (intro conjI)
qed

subsection \<open>The engine state across calls\<close>

lemma utf8_file_try: "try_encodings (read_csv (utf8_file t)) encodings = ([TryEncoding ''utf-8'', Loaded ''utf-8''], Some t)"
  by (simp add: utf8_file_def encodings_def)

lemma load_data_utf8_file:
  "load_data (utf8_file t) st = (True, st\<lparr>data := Some t\<rparr>, [TryEncoding ''utf-8'', Loaded ''utf-8''])"
  by (rule load_data_first [OF utf8_file_try])

lemma second_table_columns:
  "get_column second_table ''Intensity [%]'' = Inr (NumCol [Fin 50, Fin 60])"
  "get_column second_table ''DOP [%]'' = Inr (NumCol [Fin 80, Fin 90])"
  "azimuth_deg_column second_table = Inr (NumCol [Fin 10, Fin 20])"
  "get_column second_table ''PER [dB]'' = Inr (NumCol [Fin 20, Fin 25])"
  "get_column second_table ''No'' = Inr (NumCol [Fin 1, Fin 2])"
  by (simp_all add: second_table_def get_column_def azimuth_deg_column_def
      phi_column_def degree_sign_def)

lemma run_Some:
  assumes "load_data env st = (True, st', msgs)" and "data st' = Some d"
    and "compute_stokes d = Inr results"
  shows "run env st = (True, st'\<lparr>stokes_results := Some results\<rparr>)"
  using assms by (simp add: run_def convert_to_stokes_def)

lemma compute_scenario_neq_second:
  "compute_stokes second_table \<noteq> compute_stokes scenario_table"
  unfolding compute_stokes_numeric [OF second_table_columns]
    compute_stokes_numeric [OF scenario_columns(2-6)]
  by simp

text \<open>
  C3, as stated, fails. After one file has been loaded and converted, a successful load of
  a second file leaves the engine with the raw table of the second file next to the Stokes
  table computed from the first.
\<close>

theorem load_keeps_previous_stokes:
  "fst (run (utf8_file scenario_table) init_engine) \<and>
   tables_consistent (snd (run (utf8_file scenario_table) init_engine)) \<and>
   fst (load_data (utf8_file second_table) (snd (run (utf8_file scenario_table) init_engine))) \<and>
   data (fst (snd (load_data (utf8_file second_table)
                     (snd (run (utf8_file scenario_table) init_engine)))))
     = Some second_table \<and>
   stokes_results (fst (snd (load_data (utf8_file second_table)
                     (snd (run (utf8_file scenario_table) init_engine)))))
     = fst (convert_to_stokes \<lparr>data = Some scenario_table, stokes_results = None\<rparr>) \<and>
   \<not> tables_consistent (fst (snd (load_data (utf8_file second_table)
                     (snd (run (utf8_file scenario_table) init_engine)))))"
proof -
  obtain r where r: "compute_stokes scenario_table = Inr r"
    using compute_stokes_numeric [OF scenario_columns(2-6)] by blast
  have run1: "run (utf8_file scenario_table) init_engine =
      (True, \<lparr>data = Some scenario_table, stokes_results = Some r\<rparr>)"
    using run_Some [where st = init_engine, OF load_data_utf8_file _ r] by (simp add: init_engine_def)
  have conv: "fst (convert_to_stokes \<lparr>data = Some scenario_table, stokes_results = None\<rparr>)
      = Some r"
    using r by (simp add: convert_to_stokes_def)
  have neq: "compute_stokes second_table \<noteq> Inr r"
    using compute_scenario_neq_second r by simp
  show ?thesis
    unfolding run1 load_data_utf8_file conv
    using r neq by (simp add: tables_consistent_def)
qed

lemma load_data_cases:
  "(\<exists>t msgs. load_data env st = (True, st\<lparr>data := Some t\<rparr>, msgs)) \<or>
   (\<exists>msgs. load_data env st = (False, st, msgs))"
proof -
  obtain m1 r1 where t: "try_encodings (read_csv env) encodings = (m1, r1)"
    by (cases "try_encodings (read_csv env) encodings")
  obtain m2 r2 where d: "detect_and_load env = (m2, r2)"
    by (cases "detect_and_load env")
  show ?thesis
    using t d by (cases r1; cases r2) (auto simp: load_data_def)
qed

text \<open>
  C3, amended. A successful \<^verbatim>\<open>load_data\<close> replaces the raw table and leaves the Stokes
  results as they were; a failed one changes nothing. The Stokes results are replaced by
  the conversion: after a successful \<^verbatim>\<open>DataProcessor.run\<close> (load, then convert) the Stokes
  table held is the one computed from the raw table held.
\<close>

theorem load_data_replaces_raw_only:
  "(load_data env st = (True, st', msgs) \<longrightarrow>
      (\<exists>t. st' = st\<lparr>data := Some t\<rparr>) \<and> stokes_results st' = stokes_results st) \<and>
   (load_data env st = (False, st', msgs) \<longrightarrow> st' = st) \<and>
   (run env st = (True, st'') \<longrightarrow> stokes_results st'' \<noteq> None \<and> tables_consistent st'')"
proof -
  have A: "(\<exists>t. st' = st\<lparr>data := Some t\<rparr>) \<and> stokes_results st' = stokes_results st"
    if l: "load_data env st = (True, st', msgs)"
  proof -
    from l load_data_cases [of env st] obtain t where "st' = st\<lparr>data := Some t\<rparr>" by auto
    then show ?thesis by auto
  qed
  have B: "st' = st" if "load_data env st = (False, st', msgs)"
    using that load_data_cases [of env st] by auto
  have C: "stokes_results st'' \<noteq> None \<and> tables_consistent st''"
    if r: "run env st = (True, st'')"
  proof -
    from load_data_cases [of env st]
    obtain t m where l: "load_data env st = (True, st\<lparr>data := Some t\<rparr>, m)"
      using r by (auto simp: run_def)
    from r l obtain res where c: "compute_stokes t = Inr res"
      and s: "st'' = st\<lparr>data := Some t, stokes_results := Some res\<rparr>"
      by (cases "compute_stokes t") (auto simp: run_def convert_to_stokes_def)
    from c s show ?thesis by (simp add: tables_consistent_def)
  qed
  show ?thesis
    apply (rule conjI)
     apply (rule impI)
     apply (erule A)
    apply (rule conjI)
     apply (rule impI)
     apply (erule B)
    apply (rule impI)
    apply (erule C)
    done
qed

theorem load_data_replaces_raw_only_witness:
  "load_data (utf8_file second_table) (snd (run (utf8_file scenario_table) init_engine)) =
     (True,
      (snd (run (utf8_file scenario_table) init_engine))\<lparr>data := Some second_table\<rparr>,
      [TryEncoding ''utf-8'', Loaded ''utf-8'']) \<and>
   stokes_results ((snd (run (utf8_file scenario_table) init_engine))\<lparr>data := Some second_table\<rparr>)
     = stokes_results (snd (run (utf8_file scenario_table) init_engine)) \<and>
   load_data unreadable_file init_engine
     = (False, init_engine,
        [TryEncoding ''utf-8'', ReadFailed ''utf-8'', TryEncoding ''gbk'', ReadFailed ''gbk'',
         TryEncoding ''utf-16le'', ReadFailed ''utf-16le'', TryEncoding ''gb2312'',
         ReadFailed ''gb2312'', TryEncoding ''latin-1'', ReadFailed ''latin-1'',
         TryEncoding ''cp1252'', ReadFailed ''cp1252'', TryEncoding ''utf-8-sig'',
         ReadFailed ''utf-8-sig'', AutoDetect, NoChardet, CannotRead]) \<and>
   fst (run (utf8_file scenario_table) init_engine) \<and>
   tables_consistent (snd (run (utf8_file scenario_table) init_engine))"
proof -
  let ?s1 = "snd (run (utf8_file scenario_table) init_engine)"
  have a: "load_data (utf8_file second_table) ?s1 =
     (True, ?s1\<lparr>data := Some second_table\<rparr>, [TryEncoding ''utf-8'', Loaded ''utf-8''])"
    by (rule load_data_utf8_file)
  have b: "load_data unreadable_file init_engine
     = (False, init_engine,
        [TryEncoding ''utf-8'', ReadFailed ''utf-8'', TryEncoding ''gbk'', ReadFailed ''gbk'',
         TryEncoding ''utf-16le'', ReadFailed ''utf-16le'', TryEncoding ''gb2312'',
         ReadFailed ''gb2312'', TryEncoding ''latin-1'', ReadFailed ''latin-1'',
         TryEncoding ''cp1252'', ReadFailed ''cp1252'', TryEncoding ''utf-8-sig'',
         ReadFailed ''utf-8-sig'', AutoDetect, NoChardet, CannotRead])"
    by (simp add: load_data_def encodings_def detect_and_load_def unreadable_file_def)
  obtain r where r: "compute_stokes scenario_table = Inr r"
    using compute_stokes_numeric [OF scenario_columns(2-6)] by blast
  have c: "run (utf8_file scenario_table) init_engine =
      (True, \<lparr>data = Some scenario_table, stokes_results = Some r\<rparr>)"
    using run_Some [where st = init_engine, OF load_data_utf8_file _ r] by (simp add: init_engine_def)
  have c': "run (utf8_file scenario_table) init_engine = (True, ?s1)"
    by (simp add: c)
  from load_data_replaces_raw_only [of "utf8_file second_table" ?s1
      "?s1\<lparr>data := Some second_table\<rparr>" "[TryEncoding ''utf-8'', Loaded ''utf-8'']"]
    a have 1: "stokes_results (?s1\<lparr>data := Some second_table\<rparr>) = stokes_results ?s1"
    by blast
  from load_data_replaces_raw_only [of "utf8_file scenario_table" init_engine _ _ ?s1] c'
  have 2: "tables_consistent ?s1" by blast
  have 3: "fst (run (utf8_file scenario_table) init_engine)" by (simp add: c)
  from a b 1 2 3 show ?thesis by simp
qed

lemma has_column_map_of: "has_column t name \<longleftrightarrow> map_of t name \<noteq> None"
  by (simp add: has_column_def map_of_eq_None_iff)

lemma get_column_missing: "\<not> has_column t name \<Longrightarrow> get_column t name = Inl KeyError"
  by (simp add: has_column_map_of get_column_def)

lemma azimuth_deg_column_missing:
  "\<not> has_column t phi_column \<Longrightarrow> \<not> 5 \<le> length t \<Longrightarrow> azimuth_deg_column t = Inl IndexError"
  by (simp add: azimuth_deg_column_def get_column_missing iloc_column_def)

lemma compute_stokes_missing:
  assumes "\<not> required_columns_present t"
  shows "\<exists>e. compute_stokes t = Inl e"
proof -
  from assms consider "\<not> has_column t ''Intensity [%]''" | "\<not> has_column t ''DOP [%]''"
    | "\<not> has_column t phi_column \<and> \<not> 5 \<le> length t" | "\<not> has_column t ''PER [dB]''"
    | "\<not> has_column t ''No''"
    by (auto simp: required_columns_present_def)
  then show ?thesis
  proof cases
    case 1
    then show ?thesis by (simp add: compute_stokes_def try_bind_def get_column_missing)
  next
    case 2
    then show ?thesis
      by (simp add: compute_stokes_def try_bind_def get_column_missing split: sum.splits)
  next
    case 3
    then show ?thesis
      by (simp add: compute_stokes_def try_bind_def azimuth_deg_column_missing split: sum.splits)
  next
    case 4
    then show ?thesis
      by (simp add: compute_stokes_def try_bind_def get_column_missing split: sum.splits)
  next
    case 5
    then show ?thesis
      by (simp add: compute_stokes_def try_bind_def get_column_missing split: sum.splits)
  qed
qed

lemma no_per_table_incomplete: "\<not> required_columns_present no_per_table"
  by (simp add: required_columns_present_def has_column_def no_per_table_def phi_column_def
      degree_sign_def)

text \<open>
  C4, as stated, fails. A parsed table without the PER column is loaded and \<^verbatim>\<open>load_data\<close>
  reports success.
\<close>

theorem load_accepts_missing_column:
  "\<not> required_columns_present no_per_table \<and>
   load_data (utf8_file no_per_table) init_engine =
     (True, init_engine\<lparr>data := Some no_per_table\<rparr>, [TryEncoding ''utf-8'', Loaded ''utf-8''])"
  using no_per_table_incomplete load_data_utf8_file [of no_per_table init_engine] by simp

text \<open>
  C4, amended. \<^verbatim>\<open>load_data\<close> does not look at the columns: a table that the candidate loop
  parses is stored and the load reports success, also when a required column is missing.
  The missing column shows in the conversion, which returns \<^verbatim>\<open>None\<close> and leaves the state
  as it was, so that \<^verbatim>\<open>DataProcessor.run\<close> reports a failure.
\<close>

theorem missing_column_fails_convert:
  assumes "\<not> required_columns_present t"
    and "try_encodings (read_csv env) encodings = (msgs, Some t)"
  shows "load_data env st = (True, st\<lparr>data := Some t\<rparr>, msgs) \<and>
         convert_to_stokes (st\<lparr>data := Some t\<rparr>) = (None, st\<lparr>data := Some t\<rparr>) \<and>
         run env st = (False, st\<lparr>data := Some t\<rparr>)"
proof -
  from compute_stokes_missing [OF assms(1)] obtain e where e: "compute_stokes t = Inl e" ..
  have l: "load_data env st = (True, st\<lparr>data := Some t\<rparr>, msgs)"
    by (rule load_data_first [OF assms(2)])
  have c: "convert_to_stokes (st\<lparr>data := Some t\<rparr>) = (None, st\<lparr>data := Some t\<rparr>)"
    using e by (simp add: convert_to_stokes_def)
  have r: "run env st = (False, st\<lparr>data := Some t\<rparr>)"
    using l c by (simp add: run_def)
  from l c r show ?thesis by simp
qed

theorem missing_column_fails_convert_witness:
  "\<not> required_columns_present no_per_table \<and>
   try_encodings (read_csv (utf8_file no_per_table)) encodings =
     ([TryEncoding ''utf-8'', Loaded ''utf-8''], Some no_per_table) \<and>
   load_data (utf8_file no_per_table) init_engine =
     (True, init_engine\<lparr>data := Some no_per_table\<rparr>, [TryEncoding ''utf-8'', Loaded ''utf-8'']) \<and>
   convert_to_stokes (init_engine\<lparr>data := Some no_per_table\<rparr>) =
     (None, init_engine\<lparr>data := Some no_per_table\<rparr>) \<and>
   run (utf8_file no_per_table) init_engine = (False, init_engine\<lparr>data := Some no_per_table\<rparr>)"
  using missing_column_fails_convert [OF no_per_table_incomplete utf8_file_try, of init_engine]
    no_per_table_incomplete utf8_file_try [of no_per_table]
  by simp

lemma azimuth_deg_column_fallback:
  assumes "\<not> has_column t phi_column" and "5 \<le> length t"
  shows "azimuth_deg_column t = Inr (snd (t ! 4))"
  using assms by (simp add: azimuth_deg_column_def get_column_missing iloc_column_def)

text \<open>
  C9. For a parsed table with no column named after the azimuth and at least five columns,
  the load succeeds and the conversion takes the column at index 4 as the azimuth: when
  that column and the other required columns are numeric, the run succeeds, the column is
  copied to \<open>Azimuth_original\<close>, and \<open>S1\<close> and \<open>S2\<close> of each row are computed from its entry
  in that row.
\<close>

theorem fifth_column_fallback:
  assumes nophi: "\<not> has_column t phi_column"
    and five: "5 \<le> length t"
    and parse: "try_encodings (read_csv env) encodings = (msgs, Some t)"
    and wf: "wf_table n t"
    and iv: "get_column t ''Intensity [%]'' = Inr (NumCol intensity_pct)"
    and dv: "get_column t ''DOP [%]'' = Inr (NumCol dop_pct)"
    and per: "get_column t ''PER [dB]'' = Inr (NumCol per_db)"
    and no: "get_column t ''No'' = Inr no_col"
    and az: "snd (t ! 4) = NumCol azimuth_deg"
  shows "load_data env st = (True, st\<lparr>data := Some t\<rparr>, msgs) \<and>
         azimuth_deg_column t = Inr (NumCol azimuth_deg) \<and>
         (\<exists>S0 S1 S2 S3 DOP_calculated.
            run env st =
              (True, st\<lparr>data := Some t, stokes_results := Some
                 [(''No'', no_col), (''S0'', NumCol S0), (''S1'', NumCol S1), (''S2'', NumCol S2),
                  (''S3'', NumCol S3), (''DOP_calculated'', NumCol DOP_calculated),
                  (azimuth_original_column, NumCol azimuth_deg),
                  (''PER_original [dB]'', NumCol per_db),
                  (''Intensity_original [%]'', NumCol intensity_pct)]\<rparr>) \<and>
            length S1 = n \<and> length S2 = n \<and>
            (\<forall>i<n. S1 ! i = spec_S1 (intensity_pct ! i) (dop_pct ! i) (azimuth_deg ! i) (per_db ! i) \<and>
                   S2 ! i = spec_S2 (intensity_pct ! i) (dop_pct ! i) (azimuth_deg ! i) (per_db ! i)))"
proof -
  have l: "load_data env st = (True, st\<lparr>data := Some t\<rparr>, msgs)"
    by (rule load_data_first [OF parse])
  have a: "azimuth_deg_column t = Inr (NumCol azimuth_deg)"
    using azimuth_deg_column_fallback [OF nophi five] az by simp
  have li: "length intensity_pct = n" using wf_get_column [OF wf iv] by simp
  have ld: "length dop_pct = n" using wf_get_column [OF wf dv] by simp
  have la: "length azimuth_deg = n" using wf_azimuth_deg_column [OF wf a] by simp
  have lp: "length per_db = n" using wf_get_column [OF wf per] by simp
  let ?S0 = "intensity_arr intensity_pct"
  let ?S1 = "S1_arr ?S0 (dop_arr dop_pct) (azimuth_rad_arr azimuth_deg)
               (ellipticity_angle_arr (per_linear_arr per_db))"
  let ?S2 = "S2_arr ?S0 (dop_arr dop_pct) (azimuth_rad_arr azimuth_deg)
               (ellipticity_angle_arr (per_linear_arr per_db))"
  let ?S3 = "S3_arr ?S0 (dop_arr dop_pct) (ellipticity_angle_arr (per_linear_arr per_db))"
  let ?DC = "dop_calculated_arr ?S0 ?S1 ?S2 ?S3"
  have l1: "length ?S1 = n" and l2: "length ?S2 = n"
    using li ld la lp by (simp_all add: length_stokes_arrs)
  have r: "run env st =
              (True, st\<lparr>data := Some t, stokes_results := Some
                 [(''No'', no_col), (''S0'', NumCol ?S0), (''S1'', NumCol ?S1), (''S2'', NumCol ?S2),
                  (''S3'', NumCol ?S3), (''DOP_calculated'', NumCol ?DC),
                  (azimuth_original_column, NumCol azimuth_deg),
                  (''PER_original [dB]'', NumCol per_db),
                  (''Intensity_original [%]'', NumCol intensity_pct)]\<rparr>)"
    using run_Some [OF l _ compute_stokes_numeric [OF iv dv a per no]] by simp
  have rows: "\<forall>i<n. ?S1 ! i = spec_S1 (intensity_pct ! i) (dop_pct ! i) (azimuth_deg ! i) (per_db ! i) \<and>
                   ?S2 ! i = spec_S2 (intensity_pct ! i) (dop_pct ! i) (azimuth_deg ! i) (per_db ! i)"
    using S1_arr_nth [OF _ li ld la lp] S2_arr_nth [OF _ li ld la lp] by simp
  from r l1 l2 rows have ex: "\<exists>S0 S1 S2 S3 DOP_calculated.
            run env st =
              (True, st\<lparr>data := Some t, stokes_results := Some
                 [(''No'', no_col), (''S0'', NumCol S0), (''S1'', NumCol S1), (''S2'', NumCol S2),
                  (''S3'', NumCol S3), (''DOP_calculated'', NumCol DOP_calculated),
                  (azimuth_original_column, NumCol azimuth_deg),
                  (''PER_original [dB]'', NumCol per_db),
                  (''Intensity_original [%]'', NumCol intensity_pct)]\<rparr>) \<and>
            length S1 = n \<and> length S2 = n \<and>
            (\<forall>i<n. S1 ! i = spec_S1 (intensity_pct ! i) (dop_pct ! i) (azimuth_deg ! i) (per_db ! i) \<and>
                   S2 ! i = spec_S2 (intensity_pct ! i) (dop_pct ! i) (azimuth_deg ! i) (per_db ! i))"
    by (intro exI conjI)
  from l a ex show ?thesis by (intro conjI)
qed

lemma positional_table_columns:
  "\<not> has_column positional_table phi_column"
  "5 \<le> length positional_table"
  "wf_table 1 positional_table"
  "get_column positional_table ''Intensity [%]'' = Inr (NumCol [Fin 100])"
  "get_column positional_table ''DOP [%]'' = Inr (NumCol [Fin 100])"
  "get_column positional_table ''PER [dB]'' = Inr (NumCol [Fin 30])"
  "get_column positional_table ''No'' = Inr (NumCol [Fin 1])"
  "snd (positional_table ! 4) = NumCol [Fin 45]"
  by (simp_all add: positional_table_def has_column_def wf_table_def get_column_def
      phi_column_def degree_sign_def)

theorem fifth_column_fallback_witness:
  "\<not> has_column positional_table phi_column \<and> 5 \<le> length positional_table \<and>
   wf_table 1 positional_table \<and>
   load_data (utf8_file positional_table) init_engine =
     (True, init_engine\<lparr>data := Some positional_table\<rparr>,
      [TryEncoding ''utf-8'', Loaded ''utf-8'']) \<and>
   azimuth_deg_column positional_table = Inr (NumCol [Fin 45]) \<and>
   (\<exists>S0 S1 S2 S3 DOP_calculated.
      run (utf8_file positional_table) init_engine =
        (True, init_engine\<lparr>data := Some positional_table, stokes_results := Some
           [(''No'', NumCol [Fin 1]), (''S0'', NumCol S0), (''S1'', NumCol S1), (''S2'', NumCol S2),
            (''S3'', NumCol S3), (''DOP_calculated'', NumCol DOP_calculated),
            (azimuth_original_column, NumCol [Fin 45]),
            (''PER_original [dB]'', NumCol [Fin 30]),
            (''Intensity_original [%]'', NumCol [Fin 100])]\<rparr>) \<and>
      length S1 = 1 \<and> length S2 = 1 \<and>
      (\<forall>i<1. S1 ! i = spec_S1 ([Fin 100] ! i) ([Fin 100] ! i) ([Fin 45] ! i) ([Fin 30] ! i) \<and>
             S2 ! i = spec_S2 ([Fin 100] ! i) ([Fin 100] ! i) ([Fin 45] ! i) ([Fin 30] ! i)))"
  using fifth_column_fallback [OF positional_table_columns(1,2) utf8_file_try
      positional_table_columns(3-8), of init_engine]
    positional_table_columns(1-3)
  by (intro conjI) simp_all

lemma truncated_stokes_no_properties:
  "get_polarization_properties \<lparr>data = None, stokes_results = Some truncated_stokes\<rparr> = None"
  by (simp add: get_polarization_properties_def compute_properties_def try_bind_def
      get_column_def truncated_stokes_def)

text \<open>
  C10. With \<^verbatim>\<open>include_properties\<close> true, Stokes results present and
  \<^verbatim>\<open>get_polarization_properties\<close> returning \<^verbatim>\<open>None\<close>, \<^verbatim>\<open>save_results\<close> writes the Stokes
  table as it is and returns \<^verbatim>\<open>True\<close> (provided the write itself completes). With no
  Stokes results it writes nothing and returns \<^verbatim>\<open>False\<close>.
\<close>

theorem save_results_property_failure_silent:
  "(stokes_results st = Some results \<longrightarrow> get_polarization_properties st = None \<longrightarrow>
      to_csv_ok io output_file results \<longrightarrow>
      save_results io output_file True st fs = (True, fs(output_file \<mapsto> results))) \<and>
   (stokes_results st = None \<longrightarrow>
      save_results io output_file include_properties st fs = (False, fs))"
  by (simp add: save_results_def)

theorem save_results_property_failure_silent_witness:
  "get_polarization_properties \<lparr>data = None, stokes_results = Some truncated_stokes\<rparr> = None \<and>
   to_csv_ok working_io ''out.csv'' truncated_stokes \<and>
   save_results working_io ''out.csv'' True
       \<lparr>data = None, stokes_results = Some truncated_stokes\<rparr> Map.empty
     = (True, [''out.csv'' \<mapsto> truncated_stokes]) \<and>
   stokes_results init_engine = None \<and>
   save_results working_io ''out.csv'' True init_engine Map.empty = (False, Map.empty)"
proof -
  have w: "to_csv_ok working_io ''out.csv'' truncated_stokes" by (simp add: working_io_def)
  have n: "stokes_results init_engine = None" by (simp add: init_engine_def)
  from save_results_property_failure_silent
      [of "\<lparr>data = None, stokes_results = Some truncated_stokes\<rparr>" truncated_stokes
          working_io "''out.csv''" Map.empty]
    truncated_stokes_no_properties w
  have 1: "save_results working_io ''out.csv'' True
       \<lparr>data = None, stokes_results = Some truncated_stokes\<rparr> Map.empty
     = (True, [''out.csv'' \<mapsto> truncated_stokes])"
    by simp
  from save_results_property_failure_silent [of init_engine _ working_io "''out.csv''" Map.empty True] n
  have 2: "save_results working_io ''out.csv'' True init_engine Map.empty = (False, Map.empty)"
    by simp
  from truncated_stokes_no_properties w 1 n 2 show ?thesis by (intro conjI)
qed

subsection \<open>Degenerate rows and the norm of the Stokes vector\<close>

lemma np_mul_NaN_right [simp]: "np_mul x NaN = NaN"
  by (cases x) simp_all

lemma np_add_NaN_right [simp]: "np_add x NaN = NaN"
  by (cases x) simp_all

lemma np_div_NaN_right [simp]: "np_div x NaN = NaN"
  by (cases x) simp_all

lemma np_div_zero_not_finite: "\<not> is_finite (np_div x (Fin 0))"
  by (cases x) simp_all

lemma spec_chi_negative:
  assumes "is_negative (np_sub (spec_PERlin per) (Fin 1))"
  shows "spec_chi per = NaN"
  using assms
  by (cases "np_sub (spec_PERlin per) (Fin 1)") (simp_all add: spec_chi_def)

lemma degenerate_per_row:
  assumes "is_negative (np_sub (spec_PERlin per) (Fin 1))"
  shows "spec_S1 intensity dop azimuth per = NaN"
    and "spec_S2 intensity dop azimuth per = NaN"
    and "spec_S3 intensity dop per = NaN"
  by (simp_all add: spec_S1_def spec_S2_def spec_S3_def spec_chi_negative [OF assms])

lemma spec_DOP_calc_NaN: "spec_DOP_calc S0 NaN NaN NaN = NaN"
  by (simp add: spec_DOP_calc_def np_square_def)

lemma spec_DOP_calc_zero: "\<not> is_finite (spec_DOP_calc (Fin 0) S1 S2 S3)"
  by (simp add: spec_DOP_calc_def np_div_zero_not_finite)





lemma convert_to_stokes_result:
  assumes "data st = Some d"
    and "get_column d ''Intensity [%]'' = Inr (NumCol intensity_pct)"
    and "get_column d ''DOP [%]'' = Inr (NumCol dop_pct)"
    and "azimuth_deg_column d = Inr (NumCol azimuth_deg)"
    and "get_column d ''PER [dB]'' = Inr (NumCol per_db)"
    and "get_column d ''No'' = Inr no_col"
  shows "fst (convert_to_stokes st) =
    Some [(''No'', no_col),
         (''S0'', NumCol (intensity_arr intensity_pct)),
         (''S1'', NumCol (S1_arr (intensity_arr intensity_pct) (dop_arr dop_pct)
                   (azimuth_rad_arr azimuth_deg) (ellipticity_angle_arr (per_linear_arr per_db)))),
         (''S2'', NumCol (S2_arr (intensity_arr intensity_pct) (dop_arr dop_pct)
                   (azimuth_rad_arr azimuth_deg) (ellipticity_angle_arr (per_linear_arr per_db)))),
         (''S3'', NumCol (S3_arr (intensity_arr intensity_pct) (dop_arr dop_pct)
                   (ellipticity_angle_arr (per_linear_arr per_db)))),
         (''DOP_calculated'', NumCol (dop_calculated_arr (intensity_arr intensity_pct)
              (S1_arr (intensity_arr intensity_pct) (dop_arr dop_pct)
                   (azimuth_rad_arr azimuth_deg) (ellipticity_angle_arr (per_linear_arr per_db)))
              (S2_arr (intensity_arr intensity_pct) (dop_arr dop_pct)
                   (azimuth_rad_arr azimuth_deg) (ellipticity_angle_arr (per_linear_arr per_db)))
              (S3_arr (intensity_arr intensity_pct) (dop_arr dop_pct)
                   (ellipticity_angle_arr (per_linear_arr per_db))))),
         (azimuth_original_column, NumCol azimuth_deg),
         (''PER_original [dB]'', NumCol per_db),
         (''Intensity_original [%]'', NumCol intensity_pct)]"
  using convert_to_stokes_Some [OF assms(1) compute_stokes_numeric [OF assms(2-6)]] by simp

lemma stokes_arrs_rows:
  assumes wf: "wf_table n d"
    and iv: "get_column d ''Intensity [%]'' = Inr (NumCol intensity_pct)"
    and dv: "get_column d ''DOP [%]'' = Inr (NumCol dop_pct)"
    and az: "azimuth_deg_column d = Inr (NumCol azimuth_deg)"
    and per: "get_column d ''PER [dB]'' = Inr (NumCol per_db)"
  defines "S0 \<equiv> intensity_arr intensity_pct"
    and "S1 \<equiv> S1_arr (intensity_arr intensity_pct) (dop_arr dop_pct)
                   (azimuth_rad_arr azimuth_deg) (ellipticity_angle_arr (per_linear_arr per_db))"
    and "S2 \<equiv> S2_arr (intensity_arr intensity_pct) (dop_arr dop_pct)
                   (azimuth_rad_arr azimuth_deg) (ellipticity_angle_arr (per_linear_arr per_db))"
    and "S3 \<equiv> S3_arr (intensity_arr intensity_pct) (dop_arr dop_pct)
                   (ellipticity_angle_arr (per_linear_arr per_db))"
  shows "length S0 = n" "length S1 = n" "length S2 = n" "length S3 = n"
    "length (dop_calculated_arr S0 S1 S2 S3) = n"
    "\<And>i. i < n \<Longrightarrow> S0 ! i = np_div (intensity_pct ! i) (Fin 100)"
    "\<And>i. i < n \<Longrightarrow> S1 ! i = spec_S1 (intensity_pct ! i) (dop_pct ! i) (azimuth_deg ! i) (per_db ! i)"
    "\<And>i. i < n \<Longrightarrow> S2 ! i = spec_S2 (intensity_pct ! i) (dop_pct ! i) (azimuth_deg ! i) (per_db ! i)"
    "\<And>i. i < n \<Longrightarrow> S3 ! i = spec_S3 (intensity_pct ! i) (dop_pct ! i) (per_db ! i)"
    "\<And>i. i < n \<Longrightarrow> dop_calculated_arr S0 S1 S2 S3 ! i
        = spec_DOP_calc (S0 ! i) (S1 ! i) (S2 ! i) (S3 ! i)"
proof -
  have li: "length intensity_pct = n" using wf_get_column [OF wf iv] by simp
  have ld: "length dop_pct = n" using wf_get_column [OF wf dv] by simp
  have la: "length azimuth_deg = n" using wf_azimuth_deg_column [OF wf az] by simp
  have lp: "length per_db = n" using wf_get_column [OF wf per] by simp
  show l0: "length S0 = n" and l1: "length S1 = n" and l2: "length S2 = n"
    and l3: "length S3 = n"
    using li ld la lp by (simp_all add: S0_def S1_def S2_def S3_def length_stokes_arrs)
  show "length (dop_calculated_arr S0 S1 S2 S3) = n"
    using l0 l1 l2 l3 by (simp add: length_stokes_arrs)
  fix i assume i: "i < n"
  show "S0 ! i = np_div (intensity_pct ! i) (Fin 100)"
    using i li by (simp add: S0_def intensity_arr_def)
  show "S1 ! i = spec_S1 (intensity_pct ! i) (dop_pct ! i) (azimuth_deg ! i) (per_db ! i)"
    unfolding S1_def by (rule S1_arr_nth [OF i li ld la lp])
  show "S2 ! i = spec_S2 (intensity_pct ! i) (dop_pct ! i) (azimuth_deg ! i) (per_db ! i)"
    unfolding S2_def by (rule S2_arr_nth [OF i li ld la lp])
  show "S3 ! i = spec_S3 (intensity_pct ! i) (dop_pct ! i) (per_db ! i)"
    unfolding S3_def by (rule S3_arr_nth [OF i li ld lp])
  show "dop_calculated_arr S0 S1 S2 S3 ! i = spec_DOP_calc (S0 ! i) (S1 ! i) (S2 ! i) (S3 ! i)"
    by (rule dop_calculated_arr_nth [OF i l0 l1 l2 l3])
qed

lemma radicand_example: "is_negative (np_sub (spec_PERlin (Fin (- 10))) (Fin 1))"
proof -
  have "(10::real) powr (- 10 / 10) - 1 < 0" by (simp add: powr_minus_divide)
  then show ?thesis by (simp add: spec_PERlin_def np_sub_def)
qed


lemma degenerate_table_columns:
  "wf_table 3 degenerate_table"
  "get_column degenerate_table ''Intensity [%]'' = Inr (NumCol [Fin 100, Fin 100, Fin 0])"
  "get_column degenerate_table ''DOP [%]'' = Inr (NumCol [Fin 100, Fin 100, Fin 100])"
  "azimuth_deg_column degenerate_table = Inr (NumCol [Fin 45, Fin 45, Fin 45])"
  "get_column degenerate_table ''PER [dB]'' = Inr (NumCol [Fin 30, Fin (- 10), Fin 30])"
  "get_column degenerate_table ''No'' = Inr (NumCol [Fin 1, Fin 2, Fin 3])"
  by (simp_all add: wf_table_def degenerate_table_def get_column_def azimuth_deg_column_def
      phi_column_def degree_sign_def)


text \<open>
  C5. With the required columns numeric, \<^verbatim>\<open>convert_to_stokes\<close> returns a table with one
  entry per input row in every column, whatever the rows hold. Every row, degenerate or
  not, carries the values of the formulas applied to that row alone, so that a degenerate
  row changes no other row; \<open>S0\<close> is always the intensity of the row divided by 100. A row
  whose \<open>PERlin - 1\<close>, as the code computes it, is negative has NaN in \<open>S1\<close>, \<open>S2\<close>, \<open>S3\<close> and
  \<open>DOP_calculated\<close>; a row with \<open>S0 = 0\<close> has a non-finite \<open>DOP_calculated\<close>.
\<close>

theorem degenerate_rows_propagate:
  assumes wf: "wf_table n d"
    and d: "data st = Some d"
    and iv: "get_column d ''Intensity [%]'' = Inr (NumCol intensity_pct)"
    and dv: "get_column d ''DOP [%]'' = Inr (NumCol dop_pct)"
    and az: "azimuth_deg_column d = Inr (NumCol azimuth_deg)"
    and per: "get_column d ''PER [dB]'' = Inr (NumCol per_db)"
    and no: "get_column d ''No'' = Inr no_col"
  shows "\<exists>S0 S1 S2 S3 DOP_calculated.
     fst (convert_to_stokes st) =
       Some [(''No'', no_col), (''S0'', NumCol S0), (''S1'', NumCol S1), (''S2'', NumCol S2),
             (''S3'', NumCol S3), (''DOP_calculated'', NumCol DOP_calculated),
             (azimuth_original_column, NumCol azimuth_deg),
             (''PER_original [dB]'', NumCol per_db),
             (''Intensity_original [%]'', NumCol intensity_pct)] \<and>
     column_length no_col = n \<and> length S0 = n \<and> length S1 = n \<and> length S2 = n \<and>
     length S3 = n \<and> length DOP_calculated = n \<and>
     (\<forall>i<n. S0 ! i = np_div (intensity_pct ! i) (Fin 100) \<and>
            S1 ! i = spec_S1 (intensity_pct ! i) (dop_pct ! i) (azimuth_deg ! i) (per_db ! i) \<and>
            S2 ! i = spec_S2 (intensity_pct ! i) (dop_pct ! i) (azimuth_deg ! i) (per_db ! i) \<and>
            S3 ! i = spec_S3 (intensity_pct ! i) (dop_pct ! i) (per_db ! i) \<and>
            DOP_calculated ! i = spec_DOP_calc (S0 ! i) (S1 ! i) (S2 ! i) (S3 ! i)) \<and>
     (\<forall>i<n. is_negative (np_sub (spec_PERlin (per_db ! i)) (Fin 1)) \<longrightarrow>
            S1 ! i = NaN \<and> S2 ! i = NaN \<and> S3 ! i = NaN \<and> DOP_calculated ! i = NaN) \<and>
     (\<forall>i<n. S0 ! i = Fin 0 \<longrightarrow> \<not> is_finite (DOP_calculated ! i))"
proof -
  let ?S0 = "intensity_arr intensity_pct"
  let ?S1 = "S1_arr ?S0 (dop_arr dop_pct) (azimuth_rad_arr azimuth_deg)
               (ellipticity_angle_arr (per_linear_arr per_db))"
  let ?S2 = "S2_arr ?S0 (dop_arr dop_pct) (azimuth_rad_arr azimuth_deg)
               (ellipticity_angle_arr (per_linear_arr per_db))"
  let ?S3 = "S3_arr ?S0 (dop_arr dop_pct) (ellipticity_angle_arr (per_linear_arr per_db))"
  let ?DC = "dop_calculated_arr ?S0 ?S1 ?S2 ?S3"
  note rows = stokes_arrs_rows [OF wf iv dv az per]
  have ln: "column_length no_col = n" using wf_get_column [OF wf no] .
  have res: "fst (convert_to_stokes st) =
       Some [(''No'', no_col), (''S0'', NumCol ?S0), (''S1'', NumCol ?S1), (''S2'', NumCol ?S2),
             (''S3'', NumCol ?S3), (''DOP_calculated'', NumCol ?DC),
             (azimuth_original_column, NumCol azimuth_deg),
             (''PER_original [dB]'', NumCol per_db),
             (''Intensity_original [%]'', NumCol intensity_pct)]"
    by (rule convert_to_stokes_result [OF d iv dv az per no])
  have own: "\<forall>i<n. ?S0 ! i = np_div (intensity_pct ! i) (Fin 100) \<and>
            ?S1 ! i = spec_S1 (intensity_pct ! i) (dop_pct ! i) (azimuth_deg ! i) (per_db ! i) \<and>
            ?S2 ! i = spec_S2 (intensity_pct ! i) (dop_pct ! i) (azimuth_deg ! i) (per_db ! i) \<and>
            ?S3 ! i = spec_S3 (intensity_pct ! i) (dop_pct ! i) (per_db ! i) \<and>
            ?DC ! i = spec_DOP_calc (?S0 ! i) (?S1 ! i) (?S2 ! i) (?S3 ! i)"
    using rows(6-10) by simp
  have neg: "\<forall>i<n. is_negative (np_sub (spec_PERlin (per_db ! i)) (Fin 1)) \<longrightarrow>
            ?S1 ! i = NaN \<and> ?S2 ! i = NaN \<and> ?S3 ! i = NaN \<and> ?DC ! i = NaN"
  proof (intro allI impI)
    fix i
    assume i: "i < n" and h: "is_negative (np_sub (spec_PERlin (per_db ! i)) (Fin 1))"
    have 1: "?S1 ! i = NaN" and 2: "?S2 ! i = NaN" and 3: "?S3 ! i = NaN"
      unfolding rows(7-9) [OF i] by (rule degenerate_per_row [OF h])+
    have "?DC ! i = NaN"
      unfolding rows(10) [OF i] 1 2 3 by (rule spec_DOP_calc_NaN)
    with 1 2 3 show "?S1 ! i = NaN \<and> ?S2 ! i = NaN \<and> ?S3 ! i = NaN \<and> ?DC ! i = NaN"
      by simp
  qed
  have zero: "\<forall>i<n. ?S0 ! i = Fin 0 \<longrightarrow> \<not> is_finite (?DC ! i)"
  proof (intro allI impI)
    fix i
    assume i: "i < n" and h: "?S0 ! i = Fin 0"
    show "\<not> is_finite (?DC ! i)"
      unfolding rows(10) [OF i] h by (rule spec_DOP_calc_zero)
  qed
  from res ln rows(1-5) own neg zero show ?thesis by blast
qed

theorem degenerate_rows_propagate_witness:
  "wf_table 3 degenerate_table \<and>
   is_negative (np_sub (spec_PERlin (Fin (- 10))) (Fin 1)) \<and>
   (\<exists>S0 S1 S2 S3 DOP_calculated.
     fst (convert_to_stokes \<lparr>data = Some degenerate_table, stokes_results = None\<rparr>) =
       Some [(''No'', NumCol [Fin 1, Fin 2, Fin 3]), (''S0'', NumCol S0), (''S1'', NumCol S1),
             (''S2'', NumCol S2), (''S3'', NumCol S3), (''DOP_calculated'', NumCol DOP_calculated),
             (azimuth_original_column, NumCol [Fin 45, Fin 45, Fin 45]),
             (''PER_original [dB]'', NumCol [Fin 30, Fin (- 10), Fin 30]),
             (''Intensity_original [%]'', NumCol [Fin 100, Fin 100, Fin 0])] \<and>
     length S0 = 3 \<and> length S1 = 3 \<and> length S2 = 3 \<and> length S3 = 3 \<and>
     length DOP_calculated = 3 \<and>
     S0 ! 1 = Fin 1 \<and> S1 ! 1 = NaN \<and> S2 ! 1 = NaN \<and> S3 ! 1 = NaN \<and> DOP_calculated ! 1 = NaN \<and>
     S0 ! 2 = Fin 0 \<and> \<not> is_finite (DOP_calculated ! 2) \<and>
     S0 ! 0 = Fin 1 \<and>
     S1 ! 0 = spec_S1 (Fin 100) (Fin 100) (Fin 45) (Fin 30) \<and>
     S2 ! 0 = spec_S2 (Fin 100) (Fin 100) (Fin 45) (Fin 30) \<and>
     S3 ! 0 = spec_S3 (Fin 100) (Fin 100) (Fin 30) \<and>
     DOP_calculated ! 0 = spec_DOP_calc (S0 ! 0) (S1 ! 0) (S2 ! 0) (S3 ! 0))"
proof -
  have st: "data \<lparr>data = Some degenerate_table, stokes_results = None\<rparr> = Some degenerate_table"
    by simp
  from degenerate_rows_propagate [OF degenerate_table_columns(1) st degenerate_table_columns(2-6)]
  obtain S0 S1 S2 S3 DC where
    res: "fst (convert_to_stokes \<lparr>data = Some degenerate_table, stokes_results = None\<rparr>) =
       Some [(''No'', NumCol [Fin 1, Fin 2, Fin 3]), (''S0'', NumCol S0), (''S1'', NumCol S1),
             (''S2'', NumCol S2), (''S3'', NumCol S3), (''DOP_calculated'', NumCol DC),
             (azimuth_original_column, NumCol [Fin 45, Fin 45, Fin 45]),
             (''PER_original [dB]'', NumCol [Fin 30, Fin (- 10), Fin 30]),
             (''Intensity_original [%]'', NumCol [Fin 100, Fin 100, Fin 0])]"
    and len: "length S0 = 3" "length S1 = 3" "length S2 = 3" "length S3 = 3" "length DC = 3"
    and own: "\<forall>i<3. S0 ! i = np_div ([Fin 100, Fin 100, Fin 0] ! i) (Fin 100) \<and>
            S1 ! i = spec_S1 ([Fin 100, Fin 100, Fin 0] ! i) ([Fin 100, Fin 100, Fin 100] ! i)
                       ([Fin 45, Fin 45, Fin 45] ! i) ([Fin 30, Fin (- 10), Fin 30] ! i) \<and>
            S2 ! i = spec_S2 ([Fin 100, Fin 100, Fin 0] ! i) ([Fin 100, Fin 100, Fin 100] ! i)
                       ([Fin 45, Fin 45, Fin 45] ! i) ([Fin 30, Fin (- 10), Fin 30] ! i) \<and>
            S3 ! i = spec_S3 ([Fin 100, Fin 100, Fin 0] ! i) ([Fin 100, Fin 100, Fin 100] ! i)
                       ([Fin 30, Fin (- 10), Fin 30] ! i) \<and>
            DC ! i = spec_DOP_calc (S0 ! i) (S1 ! i) (S2 ! i) (S3 ! i)"
    and neg: "\<forall>i<3. is_negative (np_sub (spec_PERlin ([Fin 30, Fin (- 10), Fin 30] ! i)) (Fin 1)) \<longrightarrow>
            S1 ! i = NaN \<and> S2 ! i = NaN \<and> S3 ! i = NaN \<and> DC ! i = NaN"
    and zero: "\<forall>i<3. S0 ! i = Fin 0 \<longrightarrow> \<not> is_finite (DC ! i)"
    by (elim exE conjE) (rule that, assumption+)
  have lt: "(0::nat) < 3" "(1::nat) < 3" "(2::nat) < 3" by simp_all
  note o0 = own [rule_format, OF lt(1)] and o1 = own [rule_format, OF lt(2)]
    and o2 = own [rule_format, OF lt(3)]
  have a0: "S0 ! 0 = Fin 1" using o0 by simp
  have a1: "S0 ! 1 = Fin 1" using o1 by simp
  have a2: "S0 ! 2 = Fin 0" using o2 by simp
  have r0: "S1 ! 0 = spec_S1 (Fin 100) (Fin 100) (Fin 45) (Fin 30)"
    "S2 ! 0 = spec_S2 (Fin 100) (Fin 100) (Fin 45) (Fin 30)"
    "S3 ! 0 = spec_S3 (Fin 100) (Fin 100) (Fin 30)"
    "DC ! 0 = spec_DOP_calc (S0 ! 0) (S1 ! 0) (S2 ! 0) (S3 ! 0)"
    using o0 by simp_all
  have b: "S1 ! 1 = NaN \<and> S2 ! 1 = NaN \<and> S3 ! 1 = NaN \<and> DC ! 1 = NaN"
    using neg [rule_format, of 1] radicand_example by simp
  have c: "\<not> is_finite (DC ! 2)"
    using zero [rule_format, of 2] a2 by simp
  from res len a0 a1 a2 b c r0
  have "\<exists>S0 S1 S2 S3 DOP_calculated.
     fst (convert_to_stokes \<lparr>data = Some degenerate_table, stokes_results = None\<rparr>) =
       Some [(''No'', NumCol [Fin 1, Fin 2, Fin 3]), (''S0'', NumCol S0), (''S1'', NumCol S1),
             (''S2'', NumCol S2), (''S3'', NumCol S3), (''DOP_calculated'', NumCol DOP_calculated),
             (azimuth_original_column, NumCol [Fin 45, Fin 45, Fin 45]),
             (''PER_original [dB]'', NumCol [Fin 30, Fin (- 10), Fin 30]),
             (''Intensity_original [%]'', NumCol [Fin 100, Fin 100, Fin 0])] \<and>
     length S0 = 3 \<and> length S1 = 3 \<and> length S2 = 3 \<and> length S3 = 3 \<and>
     length DOP_calculated = 3 \<and>
     S0 ! 1 = Fin 1 \<and> S1 ! 1 = NaN \<and> S2 ! 1 = NaN \<and> S3 ! 1 = NaN \<and> DOP_calculated ! 1 = NaN \<and>
     S0 ! 2 = Fin 0 \<and> \<not> is_finite (DOP_calculated ! 2) \<and>
     S0 ! 0 = Fin 1 \<and>
     S1 ! 0 = spec_S1 (Fin 100) (Fin 100) (Fin 45) (Fin 30) \<and>
     S2 ! 0 = spec_S2 (Fin 100) (Fin 100) (Fin 45) (Fin 30) \<and>
     S3 ! 0 = spec_S3 (Fin 100) (Fin 100) (Fin 30) \<and>
     DOP_calculated ! 0 = spec_DOP_calc (S0 ! 0) (S1 ! 0) (S2 ! 0) (S3 ! 0)"
    by blast
  with degenerate_table_columns(1) radicand_example show ?thesis by (intro conjI)
qed

subsection \<open>The round trip\<close>













end
